theory Spec2Isabelle
  imports Complex_Main "HOL-Library.AList"
begin

section \<open>Strings\<close>

text \<open>
  Python strings are modelled as \<^typ>\<open>string\<close>. Case conversion is the ASCII part of
  \<^verbatim>\<open>str.lower\<close> and \<^verbatim>\<open>str.upper\<close>: the 26 letters are mapped, every other
  character is left alone. Statements whose truth depends on how a character is converted
  are made for ASCII text only (predicate \<open>ascii\<close>), since Python also converts letters
  outside ASCII.
\<close>

definition lower_char :: "char \<Rightarrow> char" where
  "lower_char c =
     (case map_of (zip ''ABCDEFGHIJKLMNOPQRSTUVWXYZ'' ''abcdefghijklmnopqrstuvwxyz'') c of
        Some l \<Rightarrow> l | None \<Rightarrow> c)"

definition upper_char :: "char \<Rightarrow> char" where
  "upper_char c =
     (case map_of (zip ''abcdefghijklmnopqrstuvwxyz'' ''ABCDEFGHIJKLMNOPQRSTUVWXYZ'') c of
        Some u \<Rightarrow> u | None \<Rightarrow> c)"

definition lower :: "string \<Rightarrow> string" where
  "lower s = map lower_char s"

definition upper :: "string \<Rightarrow> string" where
  "upper s = map upper_char s"

definition ascii :: "string \<Rightarrow> bool" where
  "ascii s = list_all (\<lambda>c. \<not> digit7 c) s"

text \<open>\<^verbatim>\<open>s.startswith(p)\<close>.\<close>

definition startswith :: "string \<Rightarrow> string \<Rightarrow> bool" where
  "startswith s p = (take (length p) s = p)"

text \<open>\<^verbatim>\<open>s.split(c)\<close> for a one-character separator: never empty, \<open>n\<close> separators give
  \<open>n + 1\<close> parts.\<close>

fun split_on :: "char \<Rightarrow> string \<Rightarrow> string list" where
  "split_on c [] = [[]]"
| "split_on c (x # xs) =
     (if x = c then [] # split_on c xs
      else (case split_on c xs of
              p # ps \<Rightarrow> (x # p) # ps
            | [] \<Rightarrow> [[x]]))"

text \<open>\<^verbatim>\<open>s.replace(c, new)\<close> for a one-character \<open>c\<close>.\<close>

definition replace_char :: "char \<Rightarrow> string \<Rightarrow> string \<Rightarrow> string" where
  "replace_char c new s = concat (map (\<lambda>x. if x = c then new else [x]) s)"

text \<open>\<^verbatim>\<open>str(n)\<close> for an integer: decimal digits, a minus sign when negative.\<close>

fun str_nat :: "nat \<Rightarrow> string" where
  "str_nat n =
     (if n < 10 then [''0123456789'' ! n]
      else str_nat (n div 10) @ [''0123456789'' ! (n mod 10)])"

declare str_nat.simps [simp del]

definition str_int :: "int \<Rightarrow> string" where
  "str_int i = (if i < 0 then ''-'' @ str_nat (nat (- i)) else str_nat (nat i))"

text \<open>\<^verbatim>\<open>int(x)\<close> of a float: truncation towards zero.\<close>

definition py_int :: "real \<Rightarrow> int" where
  "py_int x = (if 0 \<le> x then \<lfloor>x\<rfloor> else \<lceil>x\<rceil>)"

datatype exn = KeyError | ValueError | ReError

section \<open>admin\_verifier.py: AdminVerifier\<close>

text \<open>
  The fields of \<^verbatim>\<open>AdminVerifier\<close> that the verification methods read and write.
  \<open>hostmasks\<close> is \<^verbatim>\<open>hostmask_settings.get('hostmasks', {})\<close>. Timestamps are the
  values of \<^verbatim>\<open>time.time()\<close>, taken as real numbers.
\<close>

record admin_verifier =
  admin_nicks :: "string set"
  verification_method :: string
  password_hashes :: "string \<rightharpoonup> string"
  sessions :: "string \<rightharpoonup> (real \<times> string)"
  session_timeout :: int
  failed_attempts :: "string \<rightharpoonup> (int \<times> real)"
  max_attempts :: int
  lockout_duration :: int
  hostmasks :: "string \<rightharpoonup> string list"

text \<open>
  The hashing library is not part of the repository; it is a parameter:
  \<open>has_bcrypt\<close> is the module flag \<^verbatim>\<open>HAS_BCRYPT\<close>, \<open>checkpw\<close> is
  \<^verbatim>\<open>bcrypt.checkpw\<close> (\<open>None\<close> when it raises), \<open>sha256_hex\<close> is
  \<^verbatim>\<open>hashlib.sha256(...).hexdigest()\<close>.
\<close>

record hasher =
  has_bcrypt :: bool
  checkpw :: "string \<Rightarrow> string \<Rightarrow> bool option"
  sha256_hex :: "string \<Rightarrow> string"

text \<open>\<^verbatim>\<open>AdminVerifier.__init__\<close>, without the password files: the admin nicknames are
  stored lower-cased, sessions and failure records start empty.\<close>

definition new_admin_verifier ::
  "string list \<Rightarrow> string \<Rightarrow> int \<Rightarrow> int \<Rightarrow> int \<Rightarrow> (string \<rightharpoonup> string) \<Rightarrow>
   (string \<rightharpoonup> string list) \<Rightarrow> admin_verifier" where
  "new_admin_verifier nicks method timeout attempts duration hashes masks =
     \<lparr>admin_nicks = set (map lower nicks),
      verification_method = lower method,
      password_hashes = hashes,
      sessions = Map.empty,
      session_timeout = timeout,
      failed_attempts = Map.empty,
      max_attempts = attempts,
      lockout_duration = duration,
      hostmasks = masks\<rparr>"

text \<open>\<^verbatim>\<open>_verify_password(plaintext, hashed)\<close>.\<close>

definition priv_verify_password :: "hasher \<Rightarrow> string \<Rightarrow> string \<Rightarrow> bool" where
  "priv_verify_password H plaintext hashed =
     (if has_bcrypt H then
        (if startswith hashed ''$2b$'' \<or> startswith hashed ''$2a$'' then
           (case checkpw H plaintext hashed of Some b \<Rightarrow> b | None \<Rightarrow> False)
         else False)
      else sha256_hex H plaintext = hashed)"

definition is_admin :: "admin_verifier \<Rightarrow> string \<Rightarrow> bool" where
  "is_admin V nick = (lower nick \<in> admin_nicks V)"

definition locked_out_msg :: "int \<Rightarrow> string" where
  "locked_out_msg remaining =
     ''Too many failed attempts. Locked out for '' @ str_int remaining @ '' more seconds.''"

definition success_msg :: "int \<Rightarrow> string" where
  "success_msg timeout =
     ''Admin verification successful. Session valid for '' @ str_int (timeout div 60)
       @ '' minutes.''"

text \<open>
  \<^verbatim>\<open>verify_password(nick, password)\<close>. The clock is read up to three times:
  \<open>t1\<close> in the lockout test, \<open>t2\<close> for the remaining seconds, \<open>t3\<close> when a session
  expiry or a lockout end is computed. \<open>tok\<close> is \<^verbatim>\<open>secrets.token_urlsafe(32)\<close>.
  The result is the returned pair and the verifier after the call.
  \<open>check_credentials\<close> is the part of the method after the lockout block.
\<close>

definition check_credentials ::
  "hasher \<Rightarrow> real \<Rightarrow> string \<Rightarrow> admin_verifier \<Rightarrow> string \<Rightarrow> string \<Rightarrow>
   (bool \<times> string) \<times> admin_verifier" where
  "check_credentials H t3 tok V nick password =
     (let nick_lower = lower nick
      in if \<not> is_admin V nick then ((False, ''You are not an admin.''), V)
         else case password_hashes V nick_lower of
           None \<Rightarrow> ((False, ''No password set for this admin. Contact bot owner.''), V)
         | Some hashed \<Rightarrow>
             if priv_verify_password H password hashed then
               ((True, success_msg (session_timeout V)),
                V\<lparr>sessions := (sessions V)(nick_lower \<mapsto> (t3 + real_of_int (session_timeout V), tok)),
                  failed_attempts := (failed_attempts V)(nick_lower := None)\<rparr>)
             else
               ((False, ''Incorrect password.''),
                (case failed_attempts V nick_lower of
                   None \<Rightarrow> V\<lparr>failed_attempts := (failed_attempts V)(nick_lower \<mapsto> (1, 0))\<rparr>
                 | Some (count, _) \<Rightarrow>
                     if count + 1 \<ge> max_attempts V then
                       V\<lparr>failed_attempts := (failed_attempts V)
                            (nick_lower \<mapsto> (count + 1, t3 + real_of_int (lockout_duration V)))\<rparr>
                     else
                       V\<lparr>failed_attempts := (failed_attempts V)(nick_lower \<mapsto> (count + 1, 0))\<rparr>)))"

definition verify_password ::
  "hasher \<Rightarrow> real \<Rightarrow> real \<Rightarrow> real \<Rightarrow> string \<Rightarrow> admin_verifier \<Rightarrow> string \<Rightarrow> string \<Rightarrow>
   (bool \<times> string) \<times> admin_verifier" where
  "verify_password H t1 t2 t3 tok V nick password =
     (let nick_lower = lower nick
      in case failed_attempts V nick_lower of
           Some (count, lockout_until) \<Rightarrow>
             if t1 < lockout_until then
               ((False, locked_out_msg (py_int (lockout_until - t2))), V)
             else
               check_credentials H t3 tok
                 (V\<lparr>failed_attempts := (failed_attempts V)(nick_lower := None)\<rparr>) nick password
         | None \<Rightarrow> check_credentials H t3 tok V nick password)"

text \<open>\<^verbatim>\<open>verify_session(nick)\<close>: an expired session is deleted on lookup.\<close>

definition verify_session :: "real \<Rightarrow> admin_verifier \<Rightarrow> string \<Rightarrow> bool \<times> admin_verifier" where
  "verify_session now V nick =
     (let nick_lower = lower nick
      in case sessions V nick_lower of
           None \<Rightarrow> (False, V)
         | Some (expiry, token) \<Rightarrow>
             if now > expiry then (False, V\<lparr>sessions := (sessions V)(nick_lower := None)\<rparr>)
             else (True, V))"

text \<open>
  \<^verbatim>\<open>_match_hostmask(hostmask, pattern)\<close>. \<open>re_match\<close> stands for Python's
  \<^verbatim>\<open>re.match\<close> (\<open>None\<close> when the pattern does not compile and \<^verbatim>\<open>re.error\<close> is
  raised); the standard library is not modelled. The loop over the zipped parts is
  \<open>match_parts\<close>.
\<close>

fun match_parts :: "(string \<Rightarrow> string \<Rightarrow> bool option) \<Rightarrow> (string \<times> string) list \<Rightarrow> exn + bool" where
  "match_parts re_match [] = Inr True"
| "match_parts re_match ((p, h) # rest) =
     (if p = ''*'' then match_parts re_match rest
      else if CHR ''*'' \<in> set p then
        (case re_match (replace_char CHR ''*'' ''.*'' p) h of
           None \<Rightarrow> Inl ReError
         | Some m \<Rightarrow> if \<not> m then Inr False else match_parts re_match rest)
      else if p \<noteq> h then Inr False
      else match_parts re_match rest)"

definition match_hostmask ::
  "(string \<Rightarrow> string \<Rightarrow> bool option) \<Rightarrow> string \<Rightarrow> string \<Rightarrow> exn + bool" where
  "match_hostmask re_match hostmask pattern =
     (let pattern_parts = split_on CHR ''!'' pattern;
          hostmask_parts = split_on CHR ''!'' hostmask
      in if length pattern_parts \<noteq> length hostmask_parts then Inr False
         else match_parts re_match (zip pattern_parts hostmask_parts))"

text \<open>The loop of \<^verbatim>\<open>verify_hostmask\<close> over the allowed patterns.\<close>

fun any_pattern :: "(string \<Rightarrow> string \<Rightarrow> bool option) \<Rightarrow> string \<Rightarrow> string list \<Rightarrow> exn + bool" where
  "any_pattern re_match hostmask [] = Inr False"
| "any_pattern re_match hostmask (pattern # rest) =
     (case match_hostmask re_match hostmask pattern of
        Inl e \<Rightarrow> Inl e
      | Inr m \<Rightarrow> if m then Inr True else any_pattern re_match hostmask rest)"

definition verify_hostmask ::
  "(string \<Rightarrow> string \<Rightarrow> bool option) \<Rightarrow> admin_verifier \<Rightarrow> string \<Rightarrow> string \<Rightarrow> exn + bool" where
  "verify_hostmask re_match V nick hostmask =
     (if \<not> is_admin V nick then Inr False
      else case hostmasks V (lower nick) of
             None \<Rightarrow> Inr False
           | Some allowed \<Rightarrow> any_pattern re_match hostmask allowed)"

text \<open>A sequence of \<^verbatim>\<open>verify_password\<close> calls for one nickname, each with its clock
  readings, its token and its password; the result is the verifier after the last call.\<close>

fun after_attempts ::
  "hasher \<Rightarrow> admin_verifier \<Rightarrow> string \<Rightarrow> (real \<times> real \<times> real \<times> string \<times> string) list \<Rightarrow>
   admin_verifier" where
  "after_attempts H V nick [] = V"
| "after_attempts H V nick ((t1, t2, t3, tok, password) # rest) =
     after_attempts H (snd (verify_password H t1 t2 t3 tok V nick password)) nick rest"

section \<open>quiz\_game.py: QuizGame\<close>

text \<open>
  What the program does to the outside world is kept as a log, in order:
  \<^verbatim>\<open>connection.privmsg(target, text)\<close>, \<^verbatim>\<open>connection.notice(target, text)\<close>,
  \<^verbatim>\<open>connection.mode(target, modes)\<close> and \<^verbatim>\<open>store_score(user, score)\<close> of
  database.py, which inserts one row and never raises. The connection is taken to be
  open whenever the program sends: the IRC library, which raises on a closed connection,
  is not part of the repository.
\<close>

datatype io =
    Privmsg string string
  | Notice string string
  | Mode string string
  | StoreScore string int

text \<open>One entry of \<^verbatim>\<open>self.questions\<close>: the dictionary with the keys
  \<^verbatim>\<open>"answers"\<close>, \<^verbatim>\<open>"correct"\<close> and \<^verbatim>\<open>"category"\<close>.\<close>

record question_data =
  answers :: "(string \<times> string) list"
  correct :: string
  category :: string

text \<open>
  The attributes of \<^verbatim>\<open>QuizGame\<close>. Dictionaries whose order is visible in the
  messages are association lists in insertion order (\<open>AList.update\<close> replaces in place
  or appends, as a Python \<^verbatim>\<open>dict\<close> does). \<open>rate_limit\<close> is the module variable
  \<^verbatim>\<open>RATE_LIMIT\<close>; \<open>sent\<close> is the log of effects.
\<close>

record quiz_game =
  channel :: string
  questions :: "(string \<times> question_data) list"
  current_question :: "string option"
  participants :: "(string \<times> int) list"
  scores :: "(string \<times> int) list"
  game_active :: bool
  question_count :: int
  answer_time_limit :: int
  joining_allowed :: bool
  asked_questions :: "string set"
  last_command_time :: "string \<rightharpoonup> real"
  answered_participants :: "string \<rightharpoonup> bool"
  game_interrupted :: bool
  rate_limit :: real
  sent :: "io list"

text \<open>An exception leaves the object as it was when raised: a call either returns or
  raises, and carries the state in both cases.\<close>

datatype 'a outcome = Returned 'a | Raised exn 'a

fun state_of :: "'a outcome \<Rightarrow> 'a" where
  "state_of (Returned g) = g"
| "state_of (Raised e g) = g"

definition privmsg :: "string \<Rightarrow> string \<Rightarrow> quiz_game \<Rightarrow> quiz_game" where
  "privmsg target txt g = g\<lparr>sent := sent g @ [Privmsg target txt]\<rparr>"

definition notice :: "string \<Rightarrow> string \<Rightarrow> quiz_game \<Rightarrow> quiz_game" where
  "notice target txt g = g\<lparr>sent := sent g @ [Notice target txt]\<rparr>"

definition mode :: "string \<Rightarrow> string \<Rightarrow> quiz_game \<Rightarrow> quiz_game" where
  "mode target m g = g\<lparr>sent := sent g @ [Mode target m]\<rparr>"

definition store_score :: "string \<Rightarrow> int \<Rightarrow> quiz_game \<Rightarrow> quiz_game" where
  "store_score user score g = g\<lparr>sent := sent g @ [StoreScore user score]\<rparr>"

text \<open>\<^verbatim>\<open>QuizGame.__init__(channel, question_count, answer_time_limit)\<close>.\<close>

definition new_quiz_game :: "string \<Rightarrow> int \<Rightarrow> int \<Rightarrow> real \<Rightarrow> quiz_game" where
  "new_quiz_game ch qcount tlimit rl =
     \<lparr>channel = ch, questions = [], current_question = None, participants = [],
      scores = [], game_active = False, question_count = qcount,
      answer_time_limit = tlimit, joining_allowed = False, asked_questions = {},
      last_command_time = Map.empty, answered_participants = Map.empty,
      game_interrupted = False, rate_limit = rl, sent = []\<rparr>"

definition reset_game :: "quiz_game \<Rightarrow> quiz_game" where
  "reset_game g =
     g\<lparr>participants := [], scores := [], current_question := None,
       game_active := False, joining_allowed := False, game_interrupted := False\<rparr>"

definition reset_current_question :: "quiz_game \<Rightarrow> quiz_game" where
  "reset_current_question g = g\<lparr>current_question := None, answered_participants := Map.empty\<rparr>"

definition allow_joining :: "quiz_game \<Rightarrow> quiz_game" where
  "allow_joining g = g\<lparr>joining_allowed := True\<rparr>"

subsection \<open>Loading questions\<close>

text \<open>
  The question files and the category hierarchy live on disk; they are a parameter.
  \<open>read_questions\<close> is what \<^verbatim>\<open>open\<close>, \<^verbatim>\<open>json.load\<close> and
  \<^verbatim>\<open>html.unescape\<close> give for a file name: the (question text, entry) pairs in file
  order, or \<open>None\<close> when the file is missing or is not JSON.
  \<open>find_category_match\<close> and \<open>get_category_hierarchy\<close> are the functions of
  category\_hierarchy.py, \<open>get_available_categories\<close> is the directory listing.
\<close>

record quiz_files =
  read_questions :: "string \<Rightarrow> (string \<times> question_data) list option"
  find_category_match :: "string \<Rightarrow> string option \<times> string option \<times> bool"
  get_category_hierarchy :: "string \<rightharpoonup> string list"
  get_available_categories :: "string list"

text \<open>Python truth of an optional string: neither \<^verbatim>\<open>None\<close> nor empty.\<close>

fun truthy :: "string option \<Rightarrow> bool" where
  "truthy None = False"
| "truthy (Some s) = (s \<noteq> [])"

text \<open>The string of an optional string that has been tested for truth.\<close>

fun text_of :: "string option \<Rightarrow> string" where
  "text_of None = []"
| "text_of (Some s) = s"

definition questions_file :: "string \<Rightarrow> string" where
  "questions_file name = ''quiz_data/'' @ name @ ''_questions.json''"

text \<open>The loop body of \<^verbatim>\<open>load_questions_from_file\<close> and the method itself.\<close>

fun add_questions :: "(string \<times> question_data) list \<Rightarrow> quiz_game \<Rightarrow> quiz_game" where
  "add_questions [] g = g"
| "add_questions ((question_text, d) # rest) g =
     add_questions rest
       (if question_text \<notin> asked_questions g
        then g\<lparr>questions := AList.update question_text d (questions g)\<rparr>
        else g)"

definition load_questions_from_file :: "quiz_files \<Rightarrow> string \<Rightarrow> quiz_game \<Rightarrow> bool \<times> quiz_game" where
  "load_questions_from_file D filename g =
     (case read_questions D filename of
        None \<Rightarrow> (False, g)
      | Some questions_data \<Rightarrow> (True, add_questions questions_data g))"

text \<open>The two loops of \<^verbatim>\<open>load_questions\<close> over several files: the first file that
  fails ends the load with \<^verbatim>\<open>False\<close>.\<close>

fun load_all :: "quiz_files \<Rightarrow> string list \<Rightarrow> quiz_game \<Rightarrow> bool \<times> quiz_game" where
  "load_all D [] g = (True, g)"
| "load_all D (name # rest) g =
     (case load_questions_from_file D (questions_file name) g of
        (ok, g') \<Rightarrow> if \<not> ok then (False, g') else load_all D rest g')"

definition load_questions :: "quiz_files \<Rightarrow> string \<Rightarrow> quiz_game \<Rightarrow> bool \<times> quiz_game" where
  "load_questions D cat g =
     (let g0 = g\<lparr>questions := [], asked_questions := {}\<rparr>
      in if cat = ''random'' then load_all D (get_available_categories D) g0
         else
           (case find_category_match D cat of (main_cat, subcat, is_random) \<Rightarrow>
              let subcategories =
                    (if truthy main_cat \<and> is_random
                     then (case get_category_hierarchy D (text_of main_cat) of
                             Some l \<Rightarrow> l | None \<Rightarrow> [])
                     else [])
              in if subcategories \<noteq> [] then
                   load_all D (map (replace_char CHR '' '' ''_'') subcategories) g0
                 else if truthy subcat then
                   load_questions_from_file D (questions_file (text_of subcat)) g0
                 else if truthy main_cat then
                   load_questions_from_file D
                     (questions_file (replace_char CHR '' '' ''_'' (text_of main_cat))) g0
                 else load_questions_from_file D (questions_file cat) g0))"

subsection \<open>Asking, revealing, concluding\<close>

text \<open>The IRC formatting bytes \<^verbatim>\<open>\x02\<close> (bold) and \<^verbatim>\<open>\x03\<close> (colour).\<close>

definition bold :: string where
  "bold = [CHR 0x02]"

definition colour :: string where
  "colour = [CHR 0x03]"

text \<open>\<^verbatim>\<open>f"{n:02}"\<close> for a question number.\<close>

definition fmt02 :: "nat \<Rightarrow> string" where
  "fmt02 n = (if n < 10 then ''0'' @ str_nat n else str_nat n)"

text \<open>\<^verbatim>\<open>sep.join(xs)\<close> and \<^verbatim>\<open>s.ljust(n)\<close>.\<close>

fun join :: "string \<Rightarrow> string list \<Rightarrow> string" where
  "join sep [] = []"
| "join sep [x] = x"
| "join sep (x # y # ys) = x @ sep @ join sep (y # ys)"

definition ljust :: "nat \<Rightarrow> string \<Rightarrow> string" where
  "ljust n s = s @ replicate (n - length s) CHR '' ''"

text \<open>\<^verbatim>\<open>max\<close> of a sequence: \<^verbatim>\<open>ValueError\<close> on an empty one.\<close>

fun py_max :: "('a::linorder) list \<Rightarrow> 'a option" where
  "py_max [] = None"
| "py_max (x # xs) = Some (fold max xs x)"

definition ask_question :: "string \<Rightarrow> nat \<Rightarrow> question_data \<Rightarrow> quiz_game \<Rightarrow> quiz_game" where
  "ask_question question question_number d g =
     (if question \<in> asked_questions g then g
      else
        let ch = channel g;
            g1 = reset_current_question (g\<lparr>asked_questions := insert question (asked_questions g)\<rparr>);
            g2 = g1\<lparr>current_question := Some question\<rparr>;
            g3 = privmsg ch '' '' g2;
            g4 = privmsg ch (''[ Category: '' @ bold @ category d @ bold @ '' ]'') g3;
            g5 = privmsg ch '' '' g4;
            g6 = privmsg ch (colour @ ''12Question '' @ fmt02 question_number @ colour @ '': ''
                              @ bold @ question @ bold) g5;
            g7 = fold (\<lambda>(label, answer). privmsg ch (colour @ ''12'' @ label @ colour @ '': '' @ answer))
                   (answers d) g6;
            g8 = privmsg ch '' '' g7;
            g9 = privmsg ch (''You have '' @ colour @ ''04'' @ str_int (answer_time_limit g)
                              @ colour @ '' seconds to answer.'') g8
        in privmsg ch '' '' g9)"

definition show_results :: "quiz_game \<Rightarrow> quiz_game outcome" where
  "show_results g =
     (case current_question g of
        None \<Rightarrow> Raised KeyError g
      | Some q \<Rightarrow>
          (case map_of (questions g) q of
             None \<Rightarrow> Raised KeyError g
           | Some d \<Rightarrow>
               (case map_of (answers d) (correct d) of
                  None \<Rightarrow> Raised KeyError g
                | Some correct_answer_text \<Rightarrow>
                    Returned
                      (privmsg (channel g) '' ''
                        (privmsg (channel g)
                           (''The correct answer was '' @ correct d @ '': '' @ bold
                              @ correct_answer_text @ bold) g)))))"

definition end_quiz :: "quiz_game \<Rightarrow> quiz_game outcome" where
  "end_quiz g =
     (let ch = channel g;
          g1 = privmsg ch '' '' g
      in (case py_max (map snd (scores g1)) of
           None \<Rightarrow> Raised ValueError g1
         | Some max_score \<Rightarrow>
             let winners = map fst (filter (\<lambda>(nick, score). score = max_score) (scores g1));
                 g2 = privmsg ch (colour @ ''03Quiz ended.'' @ colour) g1;
                 g3 = privmsg ch '' '' g2;
                 g4 = privmsg ch (bold @ ''Winners:'' @ bold @ '' '' @ colour @ ''03''
                                   @ join '', '' winners @ colour @ '' with '' @ colour @ ''03''
                                   @ str_int max_score @ '' points.'' @ colour) g3;
                 g5 = privmsg ch '' '' g4;
                 g6 = privmsg ch (bold @ ''Scores:'' @ bold) g5;
                 g7 = privmsg ch '' '' g6;
                 sorted_scores = sort_key (\<lambda>(user, score). - score) (scores g7)
             in (case py_max (map (\<lambda>(user, score). length user) sorted_scores) of
                  None \<Rightarrow> Raised ValueError g7
                | Some max_username_length \<Rightarrow>
                    let g8 = fold (\<lambda>(user, score).
                                     privmsg ch ('' '' @ ljust max_username_length user @ '' : ''
                                                  @ str_int score @ '' points''))
                               sorted_scores g7;
                        g9 = privmsg ch '' '' g8;
                        g10 = mode ch ''-m'' g9;
                        g11 = fold (\<lambda>(user, score). store_score user score) (scores g10) g10
                    in Returned (reset_game (g11\<lparr>game_active := False, joining_allowed := False\<rparr>)))))"

text \<open>
  \<^verbatim>\<open>process_answer(user, answer, connection)\<close>. \<open>now1\<close> is the clock in the rate
  limit test, \<open>now2\<close> the clock that is stored.
\<close>

definition process_answer ::
  "real \<Rightarrow> real \<Rightarrow> string \<Rightarrow> string \<Rightarrow> quiz_game \<Rightarrow> quiz_game outcome" where
  "process_answer now1 now2 user answer g =
     (if (case last_command_time g user of
            Some last_time \<Rightarrow> now1 - last_time < rate_limit g
          | None \<Rightarrow> False)
      then Returned (privmsg (channel g) (user @ '', please wait before sending another command.'') g)
      else
        let g1 = g\<lparr>last_command_time := (last_command_time g)(user \<mapsto> now2)\<rparr>
        in if \<not> game_active g1 \<or> map_of (participants g1) user = None
              \<or> current_question g1 = None
           then Returned g1
           else if answered_participants g1 user \<noteq> None then Returned g1
           else
             (case map_of (questions g1) (text_of (current_question g1)) of
                None \<Rightarrow> Raised KeyError g1
              | Some d \<Rightarrow>
                  if upper answer = correct d then
                    (case map_of (scores g1) user of
                       None \<Rightarrow> Raised KeyError g1
                     | Some score \<Rightarrow>
                         Returned
                           ((privmsg (channel g1) (user @ '' answered '' @ colour @ ''03Correct!'' @ colour)
                              (g1\<lparr>scores := AList.update user (score + 1) (scores g1)\<rparr>))
                            \<lparr>answered_participants := (answered_participants g1)(user \<mapsto> True)\<rparr>))
                  else
                    Returned
                      ((privmsg (channel g1) (user @ '' answered '' @ colour @ ''04Wrong!'' @ colour) g1)
                       \<lparr>answered_participants := (answered_participants g1)(user \<mapsto> True)\<rparr>)))"

definition handle_join_command :: "string \<Rightarrow> quiz_game \<Rightarrow> quiz_game" where
  "handle_join_command user g =
     (if \<not> game_active g \<and> \<not> joining_allowed g then
        notice user ''Sorry, there is no quiz currently accepting participants.'' g
      else if game_active g then
        notice user ''Sorry, a quiz is already in progress. Please wait for the next round.'' g
      else if map_of (participants g) user \<noteq> None then
        notice user ''You have already registered for the quiz.'' g
      else
        privmsg (channel g) (user @ '' has joined the quiz! Good luck!'')
          (g\<lparr>participants := AList.update user 0 (participants g)\<rparr>))"

subsection \<open>The start command\<close>

text \<open>\<^verbatim>\<open>s.replace(old, new)\<close> for strings.\<close>

function replace_str :: "string \<Rightarrow> string \<Rightarrow> string \<Rightarrow> string" where
  "replace_str old new [] = (if old = [] then new else [])"
| "replace_str old new (c # cs) =
     (if old = [] then new @ concat (map (\<lambda>x. x # new) (c # cs))
      else if startswith (c # cs) old then new @ replace_str old new (drop (length old) (c # cs))
      else c # replace_str old new cs)"
  by pat_completeness auto
termination
  by (relation "measure (\<lambda>(old, new, s). length s)") auto

definition apos :: string where
  "apos = [CHR 0x27]"

text \<open>
  \<^verbatim>\<open>handle_start_command(quiz_game, category, connection, user)\<close>. The second
  component of the result is the argument of the
  \<^verbatim>\<open>threading.Timer(45, start_quiz, ...)\<close> that was started, if one was.
\<close>

definition handle_start_command ::
  "quiz_files \<Rightarrow> string \<Rightarrow> string \<Rightarrow> quiz_game \<Rightarrow> quiz_game \<times> string option" where
  "handle_start_command D cat user g =
     (case (if lower cat = ''random'' then Some (''random'', ''random'')
            else (case find_category_match D cat of (main_cat, subcat, is_random) \<Rightarrow>
                    if \<not> truthy main_cat then None
                    else if truthy subcat then
                      Some (text_of subcat,
                            replace_str (text_of main_cat @ '' '') []
                              (replace_char CHR ''_'' '' '' (text_of subcat)))
                    else Some (replace_char CHR '' '' ''_'' (text_of main_cat), text_of main_cat))) of
        None \<Rightarrow>
          (notice user (''Error: Category '' @ apos @ cat @ apos
                         @ '' not found. Use !categories to see available categories.'') g, None)
      | Some (formatted_category, display_category) \<Rightarrow>
          (case load_questions D formatted_category g of (ok, g1) \<Rightarrow>
             if \<not> ok then
               (notice user (''Error: Unable to load questions for category '' @ apos @ cat
                              @ apos @ ''.'') g1, None)
             else if \<not> game_active g1 \<and> joining_allowed g1 then
               (notice user ''A quiz is already scheduled to start. Please join now.'' g1, None)
             else
               let ch = channel g1;
                   g2 = (if game_active g1 then notice user ''A quiz is already active.'' g1 else g1);
                   g3 = allow_joining g2;
                   g4 = privmsg ch '' '' g3;
                   g5 = privmsg ch (''A quiz on '' @ apos @ colour @ ''04'' @ display_category @ colour
                                     @ apos @ '' category will start in'' @ colour @ ''04 45'' @ colour
                                     @ '' seconds. '' @ colour @ ''03'' @ apos @ ''/msg Quizzer !join''
                                     @ apos @ colour @ '' to participate.'') g4;
                   g6 = privmsg ch (''The quiz round will consist of '' @ colour @ ''03''
                                     @ str_int (question_count g5) @ colour @ '' questions.'') g5;
                   g7 = privmsg ch (''To register your answer to each question: '' @ colour @ ''03''
                                     @ apos @ ''/msg Quizzer !a <answer>'' @ apos @ colour) g6;
                   g8 = privmsg ch '' '' g7
               in (mode ch ''+m'' g8, Some formatted_category)))"

subsection \<open>Commands of other threads\<close>

text \<open>\<^verbatim>\<open>AdminCommands.stop_game(connection, nick)\<close> of admin.py.\<close>

definition stop_game :: "string \<Rightarrow> quiz_game \<Rightarrow> quiz_game" where
  "stop_game nick g =
     (if game_active g then
        privmsg (channel g) ''Game has been stopped by an admin.'' (g\<lparr>game_active := False\<rparr>)
      else privmsg nick ''No active game to stop.'' g)"

text \<open>
  \<^verbatim>\<open>QuizzerBot.on_disconnect\<close> of bot.py, as far as it touches the game;
  \<open>should_reconnect\<close> is the attribute of the bot. The handler goes on to wait and
  to reconnect; the reconnection is taken to succeed, so that the connection is open
  again when the handler has returned.
\<close>

definition on_disconnect :: "bool \<Rightarrow> quiz_game \<Rightarrow> quiz_game" where
  "on_disconnect should_reconnect g =
     (if \<not> should_reconnect then g
      else if game_active g then
        g\<lparr>game_active := False, game_interrupted := True, joining_allowed := False\<rparr>
      else g)"

text \<open>
  \<^verbatim>\<open>QuizzerBot.on_join\<close> of bot.py: \<open>joined_nick\<close> is the nickname that joined,
  \<open>bot_nick\<close> is \<^verbatim>\<open>c.get_nickname()\<close>. The warning sign of the message is its three
  UTF-8 bytes.
\<close>

definition on_join :: "string \<Rightarrow> string \<Rightarrow> quiz_game \<Rightarrow> quiz_game" where
  "on_join joined_nick bot_nick g =
     (if lower joined_nick = lower bot_nick then
        (if game_interrupted g then
           let ch = channel g;
               g1 = privmsg ch '' '' g;
               g2 = privmsg ch (colour @ ''04'' @ [CHR 0xE2, CHR 0x9A, CHR 0xA0]
                                 @ '' The previous quiz was interrupted due to bot disconnection.''
                                 @ colour) g1;
               g3 = (if scores g2 \<noteq> [] then
                       fold (\<lambda>(user, score).
                               privmsg ch (''  '' @ user @ '': '' @ str_int score @ '' points''))
                         (sort_key (\<lambda>(user, score). - score) (scores g2))
                         (privmsg ch ''Partial scores before interruption:'' g2)
                     else g2);
               g4 = privmsg ch ''The quiz has been cancelled. Please start a new quiz with !start'' g3;
               g5 = privmsg ch '' '' g4;
               g6 = reset_game (g5\<lparr>game_interrupted := False\<rparr>)
           in mode ch ''-m'' g6
         else g)
      else g)"

text \<open>
  The quiz runs on a timer thread and waits with \<^verbatim>\<open>time.sleep\<close>; meanwhile the main
  thread serves the messages that arrive. These are the handlers that can run during
  such a wait. A handler that raises leaves the game as it is at that point.

  \<open>Start category user\<close> is \<^verbatim>\<open>!start category\<close> said in the channel
  (\<^verbatim>\<open>on_pubmsg\<close> of bot.py): \<^verbatim>\<open>handle_start_command\<close>, whatever the state of the
  round. The timer that the command may start is not part of the event: it fires 45
  seconds later, on a thread of its own, as a further \<^verbatim>\<open>start_quiz\<close> on the game as
  it is then.
\<close>

datatype event =
    Join string
  | Answer real real string string
  | Start string string
  | StopGame string
  | Disconnect bool
  | ChannelJoin string string

fun handle_event :: "quiz_files \<Rightarrow> event \<Rightarrow> quiz_game \<Rightarrow> quiz_game" where
  "handle_event D (Join user) g = handle_join_command user g"
| "handle_event D (Answer now1 now2 user answer) g =
     state_of (process_answer now1 now2 user answer g)"
| "handle_event D (Start cat user) g = fst (handle_start_command D cat user g)"
| "handle_event D (StopGame nick) g = stop_game nick g"
| "handle_event D (Disconnect should_reconnect) g = on_disconnect should_reconnect g"
| "handle_event D (ChannelJoin joined_nick bot_nick) g = on_join joined_nick bot_nick g"

subsection \<open>The quiz thread\<close>

text \<open>
  \<^verbatim>\<open>random.sample(population, k)\<close>: \<^verbatim>\<open>ValueError\<close> for a \<open>k\<close> that is negative
  or larger than the population, else \<open>k\<close> elements at different positions. The random
  choice is the parameter \<open>shuffle\<close>, an order of the positions of the population; the
  sample is made of the elements at the first \<open>k\<close> positions of that order.
  \<open>valid_shuffle\<close> says that \<open>shuffle\<close> is such an order: every position of the
  population, once.
\<close>

definition valid_shuffle :: "nat \<Rightarrow> nat list \<Rightarrow> bool" where
  "valid_shuffle n shuffle =
     (length shuffle = n \<and> distinct shuffle \<and> list_all (\<lambda>i. i < n) shuffle)"

definition random_sample :: "nat list \<Rightarrow> 'a list \<Rightarrow> int \<Rightarrow> 'a list option" where
  "random_sample shuffle population k =
     (if k < 0 \<or> int (length population) < k then None
      else Some (map (\<lambda>i. population ! i) (take (nat k) shuffle)))"

text \<open>
  The loop of \<^verbatim>\<open>start_quiz\<close>. \<open>sleeps\<close> lists, for each
  \<^verbatim>\<open>time.sleep(answer_time_limit)\<close> in turn, the events served during that wait
  (none once the list is used up). \<^verbatim>\<open>time.sleep\<close> raises \<^verbatim>\<open>ValueError\<close> for a
  negative number of seconds.
\<close>

fun during_sleep :: "quiz_files \<Rightarrow> event list list \<Rightarrow> quiz_game \<Rightarrow> quiz_game" where
  "during_sleep D [] g = g"
| "during_sleep D (evs # _) g = fold (handle_event D) evs g"

fun run_questions ::
  "quiz_files \<Rightarrow> event list list \<Rightarrow> nat \<Rightarrow> (string \<times> question_data) list \<Rightarrow> quiz_game
     \<Rightarrow> quiz_game outcome" where
  "run_questions D sleeps i [] g = Returned g"
| "run_questions D sleeps i ((question, d) # rest) g =
     (let g1 = ask_question question i d g
      in if answer_time_limit g1 < 0 then Raised ValueError g1
         else (case show_results (during_sleep D sleeps g1) of
                 Raised e g' \<Rightarrow> Raised e g'
               | Returned g' \<Rightarrow> run_questions D (tl sleeps) (Suc i) rest g'))"

definition start_quiz ::
  "quiz_files \<Rightarrow> nat list \<Rightarrow> event list list \<Rightarrow> string \<Rightarrow> quiz_game \<Rightarrow> quiz_game outcome" where
  "start_quiz D shuffle sleeps actual_category g =
     (if participants g = [] then
        Returned (reset_game (mode (channel g) ''-m''
                    (privmsg (channel g) ''Quiz cancelled due to no participants.'' g)))
      else
        (case load_questions D actual_category g of (ok, g1) \<Rightarrow>
           if \<not> ok then Returned (privmsg (channel g1) ''Error: Unable to load questions.'' g1)
           else
             let g2 = g1\<lparr>game_active := True,
                         scores := map (\<lambda>(nick, _). (nick, 0)) (participants g1)\<rparr>
             in (case random_sample shuffle (questions g2)
                        (min (question_count g2) (int (length (questions g2)))) of
                   None \<Rightarrow> Raised ValueError g2
                 | Some qs \<Rightarrow>
                     (case run_questions D sleeps 1 qs g2 of
                        Raised e g' \<Rightarrow> Raised e g'
                      | Returned g3 \<Rightarrow> end_quiz g3))))"

section \<open>Round states and concrete runs\<close>

text \<open>
  The program has no state variable for the round; it has the two flags that
  \<^verbatim>\<open>handle_join_command\<close> tests: no flag set is "no quiz currently accepting
  participants", \<open>game_active\<close> is "a quiz is already in progress", and
  \<open>joining_allowed\<close> alone is the recruitment window.
\<close>

datatype round_state = Idle | Recruiting | Active

definition round_state :: "quiz_game \<Rightarrow> round_state" where
  "round_state g =
     (if game_active g then Active else if joining_allowed g then Recruiting else Idle)"

text \<open>
  A small installation for concrete runs: one stand-alone category \<open>Science\<close> with two
  questions, the channel \<open>#quiz\<close>, five questions per round, thirty seconds per
  question and a rate limit of two seconds.
\<close>

definition demo_q1 :: "string \<times> question_data" where
  "demo_q1 = (''What is H2O?'',
     \<lparr>answers = [(''A'', ''Water''), (''B'', ''Salt'')], correct = ''A'', category = ''Science''\<rparr>)"

definition demo_q2 :: "string \<times> question_data" where
  "demo_q2 = (''Which planet is red?'',
     \<lparr>answers = [(''A'', ''Venus''), (''B'', ''Mars'')], correct = ''B'', category = ''Science''\<rparr>)"

definition demo_files_of :: "(string \<times> question_data) list \<Rightarrow> quiz_files" where
  "demo_files_of qs =
     \<lparr>read_questions = (\<lambda>f. if f = ''quiz_data/Science_questions.json'' then Some qs else None),
      find_category_match = (\<lambda>c. if lower c = ''science''
                                   then (Some ''Science'', None, False) else (None, None, False)),
      get_category_hierarchy = [''Science'' \<mapsto> []],
      get_available_categories = [''Science'']\<rparr>"

definition demo_files :: quiz_files where
  "demo_files = demo_files_of [demo_q1, demo_q2]"

definition demo_game :: quiz_game where
  "demo_game = new_quiz_game ''#quiz'' 5 30 2"

text \<open>\<^verbatim>\<open>!start science\<close> by carol, then \<^verbatim>\<open>!join\<close> by alice: the recruitment window
  with one participant, the 45 second timer pending.\<close>

definition demo_recruiting_of :: "(string \<times> question_data) list \<Rightarrow> quiz_game" where
  "demo_recruiting_of qs =
     handle_join_command ''alice''
       (fst (handle_start_command (demo_files_of qs) ''science'' ''carol'' demo_game))"

definition demo_recruiting :: quiz_game where
  "demo_recruiting = demo_recruiting_of [demo_q1, demo_q2]"

text \<open>The same round when the timer has fired and the first question of the file has been
  asked: the state in which \<^verbatim>\<open>start_quiz\<close> waits for the first time.\<close>

definition demo_active_of :: "string \<times> question_data \<Rightarrow> (string \<times> question_data) list \<Rightarrow> quiz_game" where
  "demo_active_of q rest =
     (let g1 = snd (load_questions (demo_files_of (q # rest)) ''Science''
                      (demo_recruiting_of (q # rest)));
          g2 = g1\<lparr>game_active := True,
                  scores := map (\<lambda>(nick, _). (nick, 0)) (participants g1)\<rparr>
      in ask_question (fst q) 1 (snd q) g2)"

definition demo_active :: quiz_game where
  "demo_active = demo_active_of demo_q1 [demo_q2]"

text \<open>
  A second installation, with the stand-alone categories \<open>Science\<close> and \<open>History\<close>,
  and the same round in it: \<^verbatim>\<open>!start science\<close> by carol and \<^verbatim>\<open>!join\<close> by alice;
  then the state in which \<^verbatim>\<open>start_quiz\<close> waits for the first time, the first
  question of the file asked.
\<close>

definition demo_q3 :: "string \<times> question_data" where
  "demo_q3 = (''Who built the Colosseum?'',
     \<lparr>answers = [(''A'', ''The Romans''), (''B'', ''The Greeks'')], correct = ''A'',
      category = ''History''\<rparr>)"

definition demo_q4 :: "string \<times> question_data" where
  "demo_q4 = (''Who painted the Mona Lisa?'',
     \<lparr>answers = [(''A'', ''Raphael''), (''B'', ''Leonardo da Vinci'')], correct = ''B'',
      category = ''History''\<rparr>)"

definition library_files :: quiz_files where
  "library_files =
     \<lparr>read_questions = (\<lambda>f. if f = ''quiz_data/Science_questions.json'' then Some [demo_q1, demo_q2]
                             else if f = ''quiz_data/History_questions.json''
                               then Some [demo_q3, demo_q4]
                             else None),
      find_category_match = (\<lambda>c. if lower c = ''science'' then (Some ''Science'', None, False)
                                   else if lower c = ''history'' then (Some ''History'', None, False)
                                   else (None, None, False)),
      get_category_hierarchy = [''Science'' \<mapsto> [], ''History'' \<mapsto> []],
      get_available_categories = [''Science'', ''History'']\<rparr>"

definition library_recruiting :: quiz_game where
  "library_recruiting =
     handle_join_command ''alice''
       (fst (handle_start_command library_files ''science'' ''carol'' demo_game))"

definition library_active :: quiz_game where
  "library_active =
     (let g1 = snd (load_questions library_files ''Science'' library_recruiting);
          g2 = g1\<lparr>game_active := True,
                  scores := map (\<lambda>(nick, _). (nick, 0)) (participants g1)\<rparr>
      in ask_question (fst demo_q1) 1 (snd demo_q1) g2)"

text \<open>A question file written by hand, with lower-case answer labels.\<close>

definition demo_q_lower :: "string \<times> question_data" where
  "demo_q_lower = (''What is H2O?'',
     \<lparr>answers = [(''a'', ''Water''), (''b'', ''Salt'')], correct = ''a'', category = ''Science''\<rparr>)"

text \<open>A stand-in for the hashing library in concrete runs: the hash of a password is
  \<^verbatim>\<open>$2b$\<close> followed by the password.\<close>

definition demo_hasher :: hasher where
  "demo_hasher =
     \<lparr>has_bcrypt = True,
      checkpw = (\<lambda>plaintext hashed. Some (hashed = ''$2b$'' @ plaintext)),
      sha256_hex = (\<lambda>plaintext. plaintext)\<rparr>"

text \<open>Two admins: Alice with a stored hash, Bob without one; three attempts, 300 seconds
  of lockout, sessions of one hour.\<close>

definition demo_verifier :: admin_verifier where
  "demo_verifier =
     new_admin_verifier [''Alice'', ''Bob''] ''password'' 3600 3 300
       [''alice'' \<mapsto> ''$2b$secret''] Map.empty"

section \<open>Notions used in the statements\<close>

text \<open>The rate limit test at the head of \<^verbatim>\<open>process_answer\<close>.\<close>

definition rate_limited :: "real \<Rightarrow> string \<Rightarrow> quiz_game \<Rightarrow> bool" where
  "rate_limited now1 user g =
     (case last_command_time g user of
        Some last_time \<Rightarrow> now1 - last_time < rate_limit g
      | None \<Rightarrow> False)"



text \<open>Events of players: joining and answering.\<close>

fun player_event :: "event \<Rightarrow> bool" where
  "player_event (Join user) = True"
| "player_event (Answer now1 now2 user answer) = True"
| "player_event e = False"

definition players_only :: "event list list \<Rightarrow> bool" where
  "players_only sleeps = list_all (list_all player_event) sleeps"

text \<open>Every question names one of its own answer labels as the correct one.\<close>

definition answerable :: "(string \<times> question_data) list \<Rightarrow> bool" where
  "answerable qs = list_all (\<lambda>(q, d). map_of (answers d) (correct d) \<noteq> None) qs"

text \<open>The line by which \<^verbatim>\<open>ask_question\<close> announces a question.\<close>

definition question_line :: "string \<Rightarrow> nat \<Rightarrow> string \<Rightarrow> io" where
  "question_line ch question_number question =
     Privmsg ch (colour @ ''12Question '' @ fmt02 question_number @ colour @ '': ''
                  @ bold @ question @ bold)"

text \<open>The line by which \<^verbatim>\<open>ask_question\<close> ends a question: the time to answer.\<close>

definition deadline_line :: "string \<Rightarrow> int \<Rightarrow> io" where
  "deadline_line ch limit =
     Privmsg ch (''You have '' @ colour @ ''04'' @ str_int limit @ colour @ '' seconds to answer.'')"

text \<open>The failure record of a nickname holds no lockout: there is no record, or its
  lockout end is the initial \<open>0\<close>.\<close>

definition no_lockout_pending :: "admin_verifier \<Rightarrow> string \<Rightarrow> bool" where
  "no_lockout_pending V nick =
     (case failed_attempts V (lower nick) of
        None \<Rightarrow> True
      | Some (count, lockout_until) \<Rightarrow> lockout_until = 0)"

section \<open>Password verification\<close>

lemmas demo_verifier_simps = demo_verifier_def new_admin_verifier_def demo_hasher_def
  is_admin_def priv_verify_password_def startswith_def lower_def lower_char_def

lemma check_credentials_result:
  "fst (check_credentials H t3 tok V nick password) =
     (if \<not> is_admin V nick then (False, ''You are not an admin.'')
      else case password_hashes V (lower nick) of
             None \<Rightarrow> (False, ''No password set for this admin. Contact bot owner.'')
           | Some hashed \<Rightarrow>
               if priv_verify_password H password hashed
               then (True, success_msg (session_timeout V))
               else (False, ''Incorrect password.''))"
  by (simp add: check_credentials_def Let_def split: option.splits)

lemma is_admin_failed_attempts [simp]:
  "is_admin (V\<lparr>failed_attempts := f\<rparr>) nick = is_admin V nick"
  by (simp add: is_admin_def)

text \<open>
  Claim C3 as stated does not hold: an identity without an account and an admin with a
  wrong password get different messages from \<open>verify_password\<close>.
\<close>

theorem verify_password_reveals_account:
  "fst (verify_password demo_hasher 1000 1000 1000 ''tok'' demo_verifier ''mallory'' ''guess'')
     = (False, ''You are not an admin.'')
   \<and> fst (verify_password demo_hasher 1000 1000 1000 ''tok'' demo_verifier ''Alice'' ''guess'')
     = (False, ''Incorrect password.'')
   \<and> fst (verify_password demo_hasher 1000 1000 1000 ''tok'' demo_verifier ''Bob'' ''guess'')
     = (False, ''No password set for this admin. Contact bot owner.'')"
  by (simp add: demo_verifier_simps verify_password_def check_credentials_def Let_def)

text \<open>
  Claim C3, amended: a failed password verification of an identity that is not locked out
  returns a message fixed by the cause of the failure: "You are not an admin." for an
  identity that is no admin, "No password set for this admin. Contact bot owner." for an
  admin without a stored hash, "Incorrect password." for an admin whose credential does
  not match the stored hash.
\<close>

theorem verify_password_failure_messages:
  assumes "\<not> (case failed_attempts V (lower nick) of
                Some (count, lockout_until) \<Rightarrow> t1 < lockout_until | None \<Rightarrow> False)"
  shows "(\<not> is_admin V nick \<longrightarrow>
            fst (verify_password H t1 t2 t3 tok V nick password) = (False, ''You are not an admin.''))
       \<and> (is_admin V nick \<and> password_hashes V (lower nick) = None \<longrightarrow>
            fst (verify_password H t1 t2 t3 tok V nick password)
              = (False, ''No password set for this admin. Contact bot owner.''))
       \<and> (is_admin V nick \<and> password_hashes V (lower nick) = Some hashed
            \<and> \<not> priv_verify_password H password hashed \<longrightarrow>
            fst (verify_password H t1 t2 t3 tok V nick password) = (False, ''Incorrect password.''))"
  using assms
  by (auto simp: verify_password_def check_credentials_result Let_def split: option.splits)

theorem verify_password_failure_messages_witness:
  "\<not> is_admin demo_verifier ''mallory''
   \<and> fst (verify_password demo_hasher 1000 1000 1000 ''tok'' demo_verifier ''mallory'' ''guess'')
       = (False, ''You are not an admin.'')
   \<and> is_admin demo_verifier ''Bob'' \<and> password_hashes demo_verifier (lower ''Bob'') = None
   \<and> fst (verify_password demo_hasher 1000 1000 1000 ''tok'' demo_verifier ''Bob'' ''guess'')
       = (False, ''No password set for this admin. Contact bot owner.'')
   \<and> is_admin demo_verifier ''Alice''
   \<and> password_hashes demo_verifier (lower ''Alice'') = Some ''$2b$secret''
   \<and> \<not> priv_verify_password demo_hasher ''guess'' ''$2b$secret''
   \<and> fst (verify_password demo_hasher 1000 1000 1000 ''tok'' demo_verifier ''Alice'' ''guess'')
       = (False, ''Incorrect password.'')"
  using verify_password_failure_messages [where V = demo_verifier and nick = "''mallory''"
      and ?t1.0 = 1000 and ?t2.0 = 1000 and ?t3.0 = 1000 and tok = "''tok''" and H = demo_hasher
      and password = "''guess''"]
    verify_password_failure_messages [where V = demo_verifier and nick = "''Bob''"
      and ?t1.0 = 1000 and ?t2.0 = 1000 and ?t3.0 = 1000 and tok = "''tok''" and H = demo_hasher
      and password = "''guess''"]
    verify_password_failure_messages [where V = demo_verifier and nick = "''Alice''"
      and ?t1.0 = 1000 and ?t2.0 = 1000 and ?t3.0 = 1000 and tok = "''tok''" and H = demo_hasher
      and password = "''guess''" and hashed = "''$2b$secret''"]
  by (simp add: demo_verifier_simps)

subsection \<open>The lockout\<close>

text \<open>
  A failed attempt on a nickname without a record writes the record \<open>(1, 0)\<close>. The next
  call finds the record, reads its lockout end \<open>0\<close>, takes it for an expired lockout
  (the clock is not negative) and deletes it. So the count never passes one.
\<close>

lemma check_credentials_no_lockout:
  assumes "failed_attempts V (lower nick) = None"
  shows "no_lockout_pending (snd (check_credentials H t3 tok V nick password)) nick"
  using assms
  by (simp add: check_credentials_def no_lockout_pending_def Let_def split: option.splits)

lemma check_credentials_static:
  "admin_nicks (snd (check_credentials H t3 tok V nick password)) = admin_nicks V"
  "password_hashes (snd (check_credentials H t3 tok V nick password)) = password_hashes V"
  "session_timeout (snd (check_credentials H t3 tok V nick password)) = session_timeout V"
  by (auto simp: check_credentials_def Let_def split: option.splits)

lemma verify_password_static:
  "admin_nicks (snd (verify_password H t1 t2 t3 tok V nick password)) = admin_nicks V"
  "password_hashes (snd (verify_password H t1 t2 t3 tok V nick password)) = password_hashes V"
  "session_timeout (snd (verify_password H t1 t2 t3 tok V nick password)) = session_timeout V"
  by (auto simp: verify_password_def check_credentials_static Let_def split: option.splits)

lemma verify_password_no_lockout:
  assumes "no_lockout_pending V nick" and "0 \<le> t1"
  shows "no_lockout_pending (snd (verify_password H t1 t2 t3 tok V nick password)) nick"
proof (cases "failed_attempts V (lower nick)")
  case None
  then show ?thesis
    by (simp add: verify_password_def Let_def check_credentials_no_lockout)
next
  case (Some r)
  obtain count lockout_until where r: "r = (count, lockout_until)" by (cases r)
  with Some assms have "lockout_until = 0" by (simp add: no_lockout_pending_def)
  with Some r assms(2) show ?thesis
    by (simp add: verify_password_def Let_def check_credentials_no_lockout)
qed

lemma after_attempts_no_lockout:
  assumes "no_lockout_pending V nick"
    and "list_all (\<lambda>(t1, t2, t3, tok, password). 0 \<le> t1) tries"
  shows "no_lockout_pending (after_attempts H V nick tries) nick"
  using assms
proof (induction tries arbitrary: V)
  case Nil
  then show ?case by simp
next
  case (Cons a tries)
  obtain t1 t2 t3 tok password where a: "a = (t1, t2, t3, tok, password)"
    by (cases a) auto
  with Cons.prems
  have "no_lockout_pending (snd (verify_password H t1 t2 t3 tok V nick password)) nick"
    by (simp add: verify_password_no_lockout)
  with Cons a show ?case by simp
qed

lemma after_attempts_admin_nicks:
  "admin_nicks (after_attempts H V nick tries) = admin_nicks V"
  by (induction tries arbitrary: V) (auto simp: verify_password_static)

lemma after_attempts_password_hashes:
  "password_hashes (after_attempts H V nick tries) = password_hashes V"
  by (induction tries arbitrary: V) (auto simp: verify_password_static)

lemma after_attempts_session_timeout:
  "session_timeout (after_attempts H V nick tries) = session_timeout V"
  by (induction tries arbitrary: V) (auto simp: verify_password_static)

lemma verify_password_success_clears:
  assumes "fst (fst (verify_password H t1 t2 t3 tok V nick password))"
  shows "failed_attempts (snd (verify_password H t1 t2 t3 tok V nick password)) (lower nick) = None"
  using assms
  by (auto simp: verify_password_def check_credentials_def Let_def split: option.splits if_splits)

text \<open>
  Claim C4 says that after \<open>max_attempts\<close> failed verifications the next call is
  rejected with the remaining lockout time even for the correct password. The code does
  not do so: for an admin without a failure record, after any number of attempts at
  non-negative clock readings, a call with the correct password is accepted. (The other
  half of the claim holds: a successful verification leaves no failure record, lemma
  \<open>verify_password_success_clears\<close>.)
\<close>

theorem lockout_never_engages:
  assumes fresh: "failed_attempts V (lower nick) = None"
    and clock: "list_all (\<lambda>(t1, t2, t3, tok, password). 0 \<le> t1) tries" "0 \<le> t1"
    and admin: "is_admin V nick" "password_hashes V (lower nick) = Some hashed"
    and right: "priv_verify_password H password hashed"
  shows "fst (verify_password H t1 t2 t3 tok (after_attempts H V nick tries) nick password)
           = (True, success_msg (session_timeout V))"
proof -
  let ?W = "after_attempts H V nick tries"
  have "no_lockout_pending V nick" using fresh by (simp add: no_lockout_pending_def)
  then have nl: "no_lockout_pending ?W nick" using clock(1) by (rule after_attempts_no_lockout)
  have st: "is_admin ?W nick" "password_hashes ?W (lower nick) = Some hashed"
    "session_timeout ?W = session_timeout V"
    using admin
    by (simp_all add: is_admin_def after_attempts_admin_nicks after_attempts_password_hashes
        after_attempts_session_timeout)
  have cc: "\<And>W. is_admin W nick \<Longrightarrow> password_hashes W (lower nick) = Some hashed \<Longrightarrow>
      fst (check_credentials H t3 tok W nick password) = (True, success_msg (session_timeout W))"
    using right by (simp add: check_credentials_def Let_def)
  show ?thesis
  proof (cases "failed_attempts ?W (lower nick)")
    case None
    then show ?thesis using st by (simp add: verify_password_def Let_def cc)
  next
    case (Some r)
    obtain count lockout_until where r: "r = (count, lockout_until)" by (cases r)
    with Some nl have "lockout_until = 0" by (simp add: no_lockout_pending_def)
    with Some r clock(2) st show ?thesis
      by (simp add: verify_password_def Let_def cc)
  qed
qed

text \<open>The scenario of the specification: threshold 3, three calls with a wrong password,
  then the correct password at the fourth call.\<close>

theorem lockout_never_engages_witness:
  "max_attempts demo_verifier = 3
   \<and> fst (verify_password demo_hasher 1001 1001 1001 ''t1'' demo_verifier ''alice'' ''wrong'')
       = (False, ''Incorrect password.'')
   \<and> fst (verify_password demo_hasher 1004 1004 1004 ''t4''
            (after_attempts demo_hasher demo_verifier ''alice''
               [(1001, 1001, 1001, ''t1'', ''wrong''), (1002, 1002, 1002, ''t2'', ''wrong''),
                (1003, 1003, 1003, ''t3'', ''wrong'')])
            ''alice'' ''secret'')
       = (True, ''Admin verification successful. Session valid for 60 minutes.'')"
proof -
  have "str_nat 60 = ''60''"
    by (simp add: str_nat.simps)
  then have msg: "success_msg 3600 = ''Admin verification successful. Session valid for 60 minutes.''"
    by (simp add: success_msg_def str_int_def)
  have wrong: "fst (verify_password demo_hasher 1001 1001 1001 ''t1'' demo_verifier ''alice'' ''wrong'')
       = (False, ''Incorrect password.'')"
    by (simp add: demo_verifier_simps verify_password_def check_credentials_def Let_def)
  show ?thesis
    using lockout_never_engages [where V = demo_verifier and nick = "''alice''"
        and tries = "[(1001, 1001, 1001, ''t1'', ''wrong''), (1002, 1002, 1002, ''t2'', ''wrong''),
          (1003, 1003, 1003, ''t3'', ''wrong'')]" and ?t1.0 = 1004 and hashed = "''$2b$secret''"
        and H = demo_hasher and password = "''secret''" and ?t2.0 = 1004 and ?t3.0 = 1004
        and tok = "''t4''"] msg wrong
    by (simp add: demo_verifier_simps)
qed

subsection \<open>Identities in admin verification\<close>

lemma check_credentials_lower:
  assumes "lower nick = lower nick'"
  shows "check_credentials H t3 tok V nick password = check_credentials H t3 tok V nick' password"
  unfolding check_credentials_def is_admin_def assms ..

lemma verify_password_lower:
  assumes "lower nick = lower nick'"
  shows "verify_password H t1 t2 t3 tok V nick password
           = verify_password H t1 t2 t3 tok V nick' password"
proof -
  have cc: "\<And>W. check_credentials H t3 tok W nick password
                  = check_credentials H t3 tok W nick' password"
    by (rule check_credentials_lower [OF assms])
  show ?thesis
    unfolding verify_password_def assms cc ..
qed

lemma verify_password_other_keys:
  assumes "k \<noteq> lower nick"
  shows "sessions (snd (verify_password H t1 t2 t3 tok V nick password)) k = sessions V k"
    and "failed_attempts (snd (verify_password H t1 t2 t3 tok V nick password)) k
           = failed_attempts V k"
  using assms
  by (auto simp: verify_password_def check_credentials_def Let_def split: option.splits)

text \<open>
  Claim C9, amended: in admin verification (\<open>is_admin\<close>, \<open>verify_password\<close>,
  \<open>verify_session\<close> and \<open>verify_hostmask\<close> of \<open>AdminVerifier\<close>) identity equality is
  computed case-insensitively, with the lower-cased form as the stored key: two handles
  with the same lower-cased form get the same answer and the same verifier, and a
  password verification touches no session or failure record under another key.
\<close>

theorem admin_identity_case_insensitive:
  assumes "lower nick = lower nick'"
  shows "is_admin V nick = is_admin V nick'
       \<and> verify_password H t1 t2 t3 tok V nick password
           = verify_password H t1 t2 t3 tok V nick' password
       \<and> verify_session now V nick = verify_session now V nick'
       \<and> verify_hostmask re_match V nick hostmask = verify_hostmask re_match V nick' hostmask
       \<and> (\<forall>k. k \<noteq> lower nick \<longrightarrow>
             sessions (snd (verify_password H t1 t2 t3 tok V nick password)) k = sessions V k
             \<and> failed_attempts (snd (verify_password H t1 t2 t3 tok V nick password)) k
                 = failed_attempts V k)"
proof -
  have a: "is_admin V nick = is_admin V nick'"
    unfolding is_admin_def assms ..
  have b: "verify_session now V nick = verify_session now V nick'"
    unfolding verify_session_def assms ..
  have c: "verify_hostmask re_match V nick hostmask = verify_hostmask re_match V nick' hostmask"
    unfolding verify_hostmask_def is_admin_def assms ..
  have d: "\<forall>k. k \<noteq> lower nick \<longrightarrow>
             sessions (snd (verify_password H t1 t2 t3 tok V nick password)) k = sessions V k
             \<and> failed_attempts (snd (verify_password H t1 t2 t3 tok V nick password)) k
                 = failed_attempts V k"
    using verify_password_other_keys by blast
  show ?thesis
    by (intro conjI) (rule a, rule verify_password_lower [OF assms], rule b, rule c, rule d)
qed

theorem admin_identity_case_insensitive_witness:
  "lower ''ALICE'' = lower ''alice''
   \<and> is_admin demo_verifier ''ALICE'' \<and> is_admin demo_verifier ''alice''
   \<and> verify_password demo_hasher 1000 1000 1000 ''tok'' demo_verifier ''ALICE'' ''secret''
       = verify_password demo_hasher 1000 1000 1000 ''tok'' demo_verifier ''alice'' ''secret''
   \<and> fst (verify_password demo_hasher 1000 1000 1000 ''tok'' demo_verifier ''alice'' ''secret'')
       = (True, ''Admin verification successful. Session valid for 60 minutes.'')
   \<and> sessions (snd (verify_password demo_hasher 1000 1000 1000 ''tok'' demo_verifier
                      ''ALICE'' ''secret'')) ''alice'' = Some (4600, ''tok'')
   \<and> sessions (snd (verify_password demo_hasher 1000 1000 1000 ''tok'' demo_verifier
                      ''ALICE'' ''secret'')) ''ALICE'' = None"
proof -
  have low: "lower ''ALICE'' = lower ''alice''" "lower ''alice'' = ''alice''"
    "''ALICE'' \<noteq> lower ''ALICE''"
    by (simp_all add: lower_def lower_char_def)
  have "str_nat 60 = ''60''"
    by (simp add: str_nat.simps)
  then have run: "verify_password demo_hasher 1000 1000 1000 ''tok'' demo_verifier ''alice'' ''secret''
      = ((True, ''Admin verification successful. Session valid for 60 minutes.''),
         demo_verifier\<lparr>sessions := [''alice'' \<mapsto> (4600, ''tok'')],
                         failed_attempts := Map.empty\<rparr>)"
    by (simp add: demo_verifier_simps verify_password_def check_credentials_def Let_def
        success_msg_def str_int_def)
  have old: "sessions demo_verifier ''ALICE'' = None"
    by (simp add: demo_verifier_def new_admin_verifier_def)
  have adm: "is_admin demo_verifier ''alice''"
    by (simp add: demo_verifier_simps)
  from admin_identity_case_insensitive [OF low(1), where V = demo_verifier and H = demo_hasher
      and ?t1.0 = 1000 and ?t2.0 = 1000 and ?t3.0 = 1000 and tok = "''tok''"
      and password = "''secret''"] low(3) run old adm
  show ?thesis
    by (simp add: low(1))
qed

text \<open>
  Claim C9 as stated does not hold for the quiz: \<open>handle_join_command\<close> stores the handle
  as it is given, so \<open>alice\<close> and \<open>Alice\<close> are two participants.
\<close>

theorem join_is_case_sensitive:
  "lower ''Alice'' = lower ''alice''
   \<and> map fst (participants demo_recruiting) = [''alice'']
   \<and> map fst (participants (handle_join_command ''Alice'' demo_recruiting)) = [''alice'', ''Alice'']"
  by (simp add: demo_recruiting_def demo_recruiting_of_def demo_files_of_def demo_game_def
      new_quiz_game_def handle_start_command_def handle_join_command_def load_questions_def
      load_questions_from_file_def questions_file_def replace_char_def privmsg_def notice_def
      mode_def allow_joining_def lower_def lower_char_def Let_def demo_q1_def demo_q2_def)

section \<open>Hostmask matching\<close>





section \<open>The quiz: what each operation leaves alone\<close>

lemma privmsg_fields [simp]:
  "last_command_time (privmsg t m g) = last_command_time g"
  "scores (privmsg t m g) = scores g"
  "participants (privmsg t m g) = participants g"
  "game_active (privmsg t m g) = game_active g"
  "joining_allowed (privmsg t m g) = joining_allowed g"
  "game_interrupted (privmsg t m g) = game_interrupted g"
  "current_question (privmsg t m g) = current_question g"
  "questions (privmsg t m g) = questions g"
  "asked_questions (privmsg t m g) = asked_questions g"
  "answered_participants (privmsg t m g) = answered_participants g"
  "channel (privmsg t m g) = channel g"
  "question_count (privmsg t m g) = question_count g"
  "answer_time_limit (privmsg t m g) = answer_time_limit g"
  "rate_limit (privmsg t m g) = rate_limit g"
  "sent (privmsg t m g) = sent g @ [Privmsg t m]"
  by (simp_all add: privmsg_def)

lemma notice_fields [simp]:
  "scores (notice t m g) = scores g"
  "current_question (notice t m g) = current_question g"
  "questions (notice t m g) = questions g"
  "asked_questions (notice t m g) = asked_questions g"
  "channel (notice t m g) = channel g"
  "sent (notice t m g) = sent g @ [Notice t m]"
  by (simp_all add: notice_def)

text \<open>What a player's event leaves alone.\<close>

lemma update_keys_present:
  "map_of al k = Some v \<Longrightarrow> map fst (AList.update k v' al) = map fst al"
  by (induction al) (auto split: if_splits)

lemma handle_join_command_frame:
  "questions (handle_join_command user g) = questions g"
  "asked_questions (handle_join_command user g) = asked_questions g"
  "current_question (handle_join_command user g) = current_question g"
  "channel (handle_join_command user g) = channel g"
  "scores (handle_join_command user g) = scores g"
  "set (sent g) \<subseteq> set (sent (handle_join_command user g))"
  by (auto simp: handle_join_command_def)

lemma process_answer_frame:
  "questions (state_of (process_answer now1 now2 user answer g)) = questions g"
  "asked_questions (state_of (process_answer now1 now2 user answer g)) = asked_questions g"
  "current_question (state_of (process_answer now1 now2 user answer g)) = current_question g"
  "channel (state_of (process_answer now1 now2 user answer g)) = channel g"
  "map fst (scores (state_of (process_answer now1 now2 user answer g))) = map fst (scores g)"
  "set (sent g) \<subseteq> set (sent (state_of (process_answer now1 now2 user answer g)))"
  by (auto simp: process_answer_def Let_def update_keys_present split: option.splits)

lemma player_event_frame:
  assumes "player_event e"
  shows "questions (handle_event D e g) = questions g"
    and "asked_questions (handle_event D e g) = asked_questions g"
    and "current_question (handle_event D e g) = current_question g"
    and "channel (handle_event D e g) = channel g"
    and "map fst (scores (handle_event D e g)) = map fst (scores g)"
    and "set (sent g) \<subseteq> set (sent (handle_event D e g))"
  using assms
  by (cases e; simp add: handle_join_command_frame process_answer_frame)+

lemma player_events_frame:
  assumes "list_all player_event evs"
  shows "questions (fold (handle_event D) evs g) = questions g
       \<and> asked_questions (fold (handle_event D) evs g) = asked_questions g
       \<and> current_question (fold (handle_event D) evs g) = current_question g
       \<and> channel (fold (handle_event D) evs g) = channel g
       \<and> map fst (scores (fold (handle_event D) evs g)) = map fst (scores g)
       \<and> set (sent g) \<subseteq> set (sent (fold (handle_event D) evs g))"
  using assms
proof (induction evs arbitrary: g)
  case Nil
  then show ?case by simp
next
  case (Cons e evs)
  then have e: "player_event e" and evs: "list_all player_event evs" by simp_all
  from Cons.IH [OF evs, where g = "handle_event D e g"] player_event_frame [OF e, where g = g and D = D]
  show ?case by auto
qed

lemma during_sleep_frame:
  assumes "players_only sleeps"
  shows "questions (during_sleep D sleeps g) = questions g
       \<and> asked_questions (during_sleep D sleeps g) = asked_questions g
       \<and> current_question (during_sleep D sleeps g) = current_question g
       \<and> channel (during_sleep D sleeps g) = channel g
       \<and> map fst (scores (during_sleep D sleeps g)) = map fst (scores g)
       \<and> set (sent g) \<subseteq> set (sent (during_sleep D sleeps g))"
proof (cases sleeps)
  case Nil
  then show ?thesis by simp
next
  case (Cons evs rest)
  with assms have "list_all player_event evs" by (simp add: players_only_def)
  from player_events_frame [OF this, where g = g and D = D] Cons show ?thesis by simp
qed

subsection \<open>Asking and revealing\<close>

lemma fold_privmsg_fields [simp]:
  "questions (fold (\<lambda>(a, b). privmsg ch (f a b)) xs g) = questions g"
  "asked_questions (fold (\<lambda>(a, b). privmsg ch (f a b)) xs g) = asked_questions g"
  "current_question (fold (\<lambda>(a, b). privmsg ch (f a b)) xs g) = current_question g"
  "channel (fold (\<lambda>(a, b). privmsg ch (f a b)) xs g) = channel g"
  "scores (fold (\<lambda>(a, b). privmsg ch (f a b)) xs g) = scores g"
  "answer_time_limit (fold (\<lambda>(a, b). privmsg ch (f a b)) xs g) = answer_time_limit g"
  "game_active (fold (\<lambda>(a, b). privmsg ch (f a b)) xs g) = game_active g"
  "joining_allowed (fold (\<lambda>(a, b). privmsg ch (f a b)) xs g) = joining_allowed g"
  by (induction xs arbitrary: g; simp add: case_prod_beta)+

lemma fold_privmsg_sent:
  "sent (fold (\<lambda>(a, b). privmsg ch (f a b)) xs g) = sent g @ map (\<lambda>(a, b). Privmsg ch (f a b)) xs"
  by (induction xs arbitrary: g) (simp_all add: case_prod_beta)

lemma ask_question_new:
  assumes "question \<notin> asked_questions g"
  shows "questions (ask_question question i d g) = questions g"
    and "asked_questions (ask_question question i d g) = insert question (asked_questions g)"
    and "current_question (ask_question question i d g) = Some question"
    and "channel (ask_question question i d g) = channel g"
    and "scores (ask_question question i d g) = scores g"
    and "set (sent g) \<subseteq> set (sent (ask_question question i d g))"
    and "question_line (channel g) i question \<in> set (sent (ask_question question i d g))"
  using assms
  by (auto simp: ask_question_def Let_def reset_current_question_def fold_privmsg_sent
      question_line_def)

lemma ask_question_again:
  "question \<in> asked_questions g \<Longrightarrow> ask_question question i d g = g"
  by (simp add: ask_question_def)

lemma show_results_ok:
  assumes "current_question g = Some q" and "map_of (questions g) q = Some d"
    and "map_of (answers d) (correct d) = Some txt"
  shows "show_results g =
           Returned (privmsg (channel g) '' ''
             (privmsg (channel g)
                (''The correct answer was '' @ correct d @ '': '' @ bold @ txt @ bold) g))"
  using assms by (simp add: show_results_def)

subsection \<open>Counting the questions asked\<close>

text \<open>
  \<^verbatim>\<open>ask_question\<close> ends each question that it asks with the line that tells the time
  to answer. No other message is that line: those that answer a player's command end
  differently, the others start differently or are not channel messages. So the number of
  these lines in the output is the number of questions asked.
\<close>

lemma deadline_text_end:
  "''You have '' @ colour @ ''04'' @ str_int limit @ colour @ '' seconds to answer.''
     = (''You have '' @ colour @ ''04'' @ str_int limit @ colour @ '' seconds to answe'') @ ''r.''"
  by simp

lemma ends_agree:
  assumes "u @ a = b @ c" and "length a = length c"
  shows "a = c"
  using assms by simp

lemma not_deadline_text:
  assumes "length a = 2" and "a \<noteq> ''r.''"
  shows "u @ a \<noteq> ''You have '' @ colour @ ''04'' @ str_int limit @ colour @ '' seconds to answer.''"
proof
  assume "u @ a = ''You have '' @ colour @ ''04'' @ str_int limit @ colour @ '' seconds to answer.''"
  then have "u @ a = (''You have '' @ colour @ ''04'' @ str_int limit @ colour @ '' seconds to answe'') @ ''r.''"
    unfolding deadline_text_end .
  moreover have "length a = length ''r.''" using assms(1) by simp
  ultimately have "a = ''r.''" by (rule ends_agree)
  with assms(2) show False by (rule notE)
qed

lemma player_lines_not_deadline:
  "Privmsg t (user @ '', please wait before sending another command.'') \<noteq> deadline_line ch limit"
  "Privmsg t (user @ '' answered '' @ colour @ ''03Correct!'' @ colour) \<noteq> deadline_line ch limit"
  "Privmsg t (user @ '' answered '' @ colour @ ''04Wrong!'' @ colour) \<noteq> deadline_line ch limit"
  "Privmsg t (user @ '' has joined the quiz! Good luck!'') \<noteq> deadline_line ch limit"
proof -
  have "(user @ '', please wait before sending another comman'') @ ''d.''
          \<noteq> ''You have '' @ colour @ ''04'' @ str_int limit @ colour @ '' seconds to answer.''"
    by (rule not_deadline_text) simp_all
  then show "Privmsg t (user @ '', please wait before sending another command.'')
               \<noteq> deadline_line ch limit"
    by (simp add: deadline_line_def)
  have "(user @ '' answered '' @ colour @ ''03Correct'') @ (''!'' @ colour)
          \<noteq> ''You have '' @ colour @ ''04'' @ str_int limit @ colour @ '' seconds to answer.''"
    by (rule not_deadline_text) (simp_all add: colour_def)
  then show "Privmsg t (user @ '' answered '' @ colour @ ''03Correct!'' @ colour)
               \<noteq> deadline_line ch limit"
    by (simp add: deadline_line_def)
  have "(user @ '' answered '' @ colour @ ''04Wrong'') @ (''!'' @ colour)
          \<noteq> ''You have '' @ colour @ ''04'' @ str_int limit @ colour @ '' seconds to answer.''"
    by (rule not_deadline_text) (simp_all add: colour_def)
  then show "Privmsg t (user @ '' answered '' @ colour @ ''04Wrong!'' @ colour)
               \<noteq> deadline_line ch limit"
    by (simp add: deadline_line_def)
  have "(user @ '' has joined the quiz! Good luc'') @ ''k!''
          \<noteq> ''You have '' @ colour @ ''04'' @ str_int limit @ colour @ '' seconds to answer.''"
    by (rule not_deadline_text) simp_all
  then show "Privmsg t (user @ '' has joined the quiz! Good luck!'') \<noteq> deadline_line ch limit"
    by (simp add: deadline_line_def)
qed

lemma other_lines_not_deadline:
  "Notice t m \<noteq> deadline_line ch limit"
  "Mode t m \<noteq> deadline_line ch limit"
  "StoreScore user score \<noteq> deadline_line ch limit"
  "c \<noteq> CHR ''Y'' \<Longrightarrow> Privmsg t (c # m) \<noteq> deadline_line ch limit"
  by (simp_all add: deadline_line_def)

lemma count_list_map_none:
  "(\<And>x. x \<in> set xs \<Longrightarrow> f x \<noteq> y) \<Longrightarrow> count_list (map f xs) y = 0"
  by (induction xs) simp_all

lemma handle_join_command_count:
  "count_list (sent (handle_join_command user g)) (deadline_line ch limit)
     = count_list (sent g) (deadline_line ch limit)"
  "answer_time_limit (handle_join_command user g) = answer_time_limit g"
  by (simp_all add: handle_join_command_def notice_def
      player_lines_not_deadline [simplified] other_lines_not_deadline)

lemma process_answer_count:
  "count_list (sent (state_of (process_answer now1 now2 user answer g))) (deadline_line ch limit)
     = count_list (sent g) (deadline_line ch limit)"
  "answer_time_limit (state_of (process_answer now1 now2 user answer g)) = answer_time_limit g"
  by (simp_all add: process_answer_def Let_def player_lines_not_deadline [simplified]
      split: option.splits)

lemma player_event_count:
  assumes "player_event e"
  shows "count_list (sent (handle_event D e g)) (deadline_line ch limit)
           = count_list (sent g) (deadline_line ch limit)"
    and "answer_time_limit (handle_event D e g) = answer_time_limit g"
  using assms
  by (cases e; simp add: handle_join_command_count process_answer_count)+

lemma player_events_count:
  assumes "list_all player_event evs"
  shows "count_list (sent (fold (handle_event D) evs g)) (deadline_line ch limit)
           = count_list (sent g) (deadline_line ch limit)
       \<and> answer_time_limit (fold (handle_event D) evs g) = answer_time_limit g"
  using assms
proof (induction evs arbitrary: g)
  case Nil
  then show ?case by simp
next
  case (Cons e evs)
  then have e: "player_event e" and evs: "list_all player_event evs" by simp_all
  from Cons.IH [OF evs, where g = "handle_event D e g"] player_event_count [OF e, where D = D]
  show ?case by simp
qed

lemma during_sleep_count:
  assumes "players_only sleeps"
  shows "count_list (sent (during_sleep D sleeps g)) (deadline_line ch limit)
           = count_list (sent g) (deadline_line ch limit)
       \<and> answer_time_limit (during_sleep D sleeps g) = answer_time_limit g"
proof (cases sleeps)
  case Nil
  then show ?thesis by simp
next
  case (Cons evs rest)
  with assms have "list_all player_event evs" by (simp add: players_only_def)
  from player_events_count [OF this, where g = g and D = D] Cons show ?thesis by simp
qed

lemma ask_question_count:
  assumes "question \<notin> asked_questions g"
  shows "count_list (sent (ask_question question i d g))
             (deadline_line (channel g) (answer_time_limit g))
           = Suc (count_list (sent g) (deadline_line (channel g) (answer_time_limit g)))"
    and "answer_time_limit (ask_question question i d g) = answer_time_limit g"
proof -
  have "count_list (map (\<lambda>(label, answer).
            Privmsg (channel g) (colour @ ''12'' @ label @ colour @ '': '' @ answer)) (answers d))
          (deadline_line (channel g) (answer_time_limit g)) = 0"
    by (rule count_list_map_none) (simp add: case_prod_beta colour_def other_lines_not_deadline)
  with assms
  show "count_list (sent (ask_question question i d g))
             (deadline_line (channel g) (answer_time_limit g))
           = Suc (count_list (sent g) (deadline_line (channel g) (answer_time_limit g)))"
    by (simp add: ask_question_def Let_def reset_current_question_def fold_privmsg_sent
        other_lines_not_deadline colour_def bold_def)
      (simp add: deadline_line_def colour_def)
  from assms show "answer_time_limit (ask_question question i d g) = answer_time_limit g"
    by (simp add: ask_question_def Let_def reset_current_question_def)
qed

lemma show_results_count:
  assumes "show_results g = Returned g'"
  shows "count_list (sent g') (deadline_line ch limit) = count_list (sent g) (deadline_line ch limit)"
    and "answer_time_limit g' = answer_time_limit g"
    and "channel g' = channel g"
    and "asked_questions g' = asked_questions g"
  using assms
  by (auto simp: show_results_def other_lines_not_deadline split: option.splits)


subsection \<open>The loop\<close>

lemma run_questions_all:
  assumes "players_only sleeps"
    and "list_all (\<lambda>(q, d). map_of (questions g) q = Some d) qs"
    and "answerable qs"
    and "distinct (map fst qs)"
    and "set (map fst qs) \<inter> asked_questions g = {}"
    and "0 \<le> answer_time_limit g"
  shows "\<exists>g'. run_questions D sleeps i qs g = Returned g'
           \<and> questions g' = questions g
           \<and> asked_questions g' = asked_questions g \<union> set (map fst qs)
           \<and> channel g' = channel g
           \<and> map fst (scores g') = map fst (scores g)
           \<and> set (sent g) \<subseteq> set (sent g')
           \<and> (\<forall>j < length qs. question_line (channel g) (i + j) (fst (qs ! j)) \<in> set (sent g'))"
  using assms
proof (induction qs arbitrary: g i sleeps)
  case Nil
  then show ?case by simp
next
  case (Cons a qs)
  obtain q d where a: "a = (q, d)" by (cases a)
  from Cons.prems a have q_new: "q \<notin> asked_questions g"
    and q_in: "map_of (questions g) q = Some d"
    and q_ok: "map_of (answers d) (correct d) \<noteq> None"
    by (auto simp: answerable_def)
  then obtain shown where shown: "map_of (answers d) (correct d) = Some shown" by auto
  let ?g1 = "ask_question q i d g"
  let ?g2 = "during_sleep D sleeps ?g1"
  note ask = ask_question_new [OF q_new, of i d]
  note askc = ask_question_count [OF q_new, of i d]
  note slp = during_sleep_frame [OF Cons.prems(1), where g = ?g1 and D = D]
  note slpc = during_sleep_count [OF Cons.prems(1), where g = ?g1 and D = D]
  have awake: "\<not> answer_time_limit ?g1 < 0" using askc(2) Cons.prems(6) by simp
  have cur: "current_question ?g2 = Some q" using slp ask by simp
  have qs2: "questions ?g2 = questions g" using slp ask by simp
  have "map_of (questions ?g2) q = Some d" using qs2 q_in by simp
  from show_results_ok [OF cur this shown]
  obtain g3 where g3: "show_results ?g2 = Returned g3"
    and g3_q: "questions g3 = questions g"
    and g3_a: "asked_questions g3 = insert q (asked_questions g)"
    and g3_c: "channel g3 = channel g"
    and g3_s: "map fst (scores g3) = map fst (scores g)"
    and g3_o: "set (sent ?g2) \<subseteq> set (sent g3)"
    and g3_t: "answer_time_limit g3 = answer_time_limit ?g2"
    using slp ask by auto
  have p6: "0 \<le> answer_time_limit g3"
    using g3_t slpc askc(2) Cons.prems(6) by simp
  have line: "question_line (channel g) i q \<in> set (sent g3)"
    using ask(7) slp g3_o by blast
  have sub: "set (sent g) \<subseteq> set (sent g3)"
    using ask(6) slp g3_o by blast
  have p1: "players_only (tl sleeps)"
    using Cons.prems(1) by (cases sleeps) (simp_all add: players_only_def)
  have p2: "list_all (\<lambda>(q, d). map_of (questions g3) q = Some d) qs"
    using Cons.prems(2) g3_q by simp
  have p3: "answerable qs" using Cons.prems(3) by (simp add: answerable_def)
  have p4: "distinct (map fst qs)" using Cons.prems(4) by simp
  have p5: "set (map fst qs) \<inter> asked_questions g3 = {}"
    using Cons.prems(4,5) a g3_a by auto
  from Cons.IH [OF p1 p2 p3 p4 p5 p6, of "Suc i"]
  obtain g' where g': "run_questions D (tl sleeps) (Suc i) qs g3 = Returned g'"
    and r_q: "questions g' = questions g3"
    and r_a: "asked_questions g' = asked_questions g3 \<union> set (map fst qs)"
    and r_c: "channel g' = channel g3"
    and r_s: "map fst (scores g') = map fst (scores g3)"
    and r_o: "set (sent g3) \<subseteq> set (sent g')"
    and r_l: "\<forall>j < length qs. question_line (channel g3) (Suc i + j) (fst (qs ! j)) \<in> set (sent g')"
    by blast
  have run: "run_questions D sleeps i (a # qs) g = Returned g'"
    using a g3 g' awake by (simp add: Let_def)
  have lines: "\<forall>j < length (a # qs). question_line (channel g) (i + j) (fst ((a # qs) ! j)) \<in> set (sent g')"
  proof (intro allI impI)
    fix j assume j: "j < length (a # qs)"
    show "question_line (channel g) (i + j) (fst ((a # qs) ! j)) \<in> set (sent g')"
    proof (cases j)
      case 0
      then show ?thesis using line r_o a by auto
    next
      case (Suc k)
      with j r_l g3_c show ?thesis by simp
    qed
  qed
  show ?case
    using run r_q g3_q r_a g3_a r_c g3_c r_s g3_s r_o sub lines a by auto
qed

lemma run_questions_count:
  assumes "players_only sleeps"
    and "distinct (map fst qs)"
    and "set (map fst qs) \<inter> asked_questions g = {}"
    and "run_questions D sleeps i qs g = Returned g'"
  shows "count_list (sent g') (deadline_line (channel g) (answer_time_limit g))
           = count_list (sent g) (deadline_line (channel g) (answer_time_limit g)) + length qs"
  using assms
proof (induction qs arbitrary: g i sleeps)
  case Nil
  then show ?case by simp
next
  case (Cons a qs)
  obtain q d where a: "a = (q, d)" by (cases a)
  let ?L = "deadline_line (channel g) (answer_time_limit g)"
  let ?g1 = "ask_question q i d g"
  let ?g2 = "during_sleep D sleeps ?g1"
  from Cons.prems a have q_new: "q \<notin> asked_questions g" by auto
  from Cons.prems(4) a obtain g3 where g3: "show_results ?g2 = Returned g3"
    and rest: "run_questions D (tl sleeps) (Suc i) qs g3 = Returned g'"
    by (auto simp: Let_def split: outcome.splits if_splits)
  note ask = ask_question_new [OF q_new, of i d]
  note askc = ask_question_count [OF q_new, of i d]
  note slp = during_sleep_frame [OF Cons.prems(1), where g = ?g1 and D = D]
  note slpc = during_sleep_count [OF Cons.prems(1), where g = ?g1 and D = D]
  note res = show_results_count [OF g3]
  have ch: "channel g3 = channel g" using res(3) slp ask(4) by simp
  have lim: "answer_time_limit g3 = answer_time_limit g" using res(2) slpc askc(2) by simp
  have asked: "asked_questions g3 = insert q (asked_questions g)" using res(4) slp ask(2) by simp
  have c3: "count_list (sent g3) ?L = Suc (count_list (sent g) ?L)"
    using res(1) slpc askc(1) by simp
  have p1: "players_only (tl sleeps)"
    using Cons.prems(1) by (cases sleeps) (simp_all add: players_only_def)
  have p4: "distinct (map fst qs)" using Cons.prems(2) by simp
  have p5: "set (map fst qs) \<inter> asked_questions g3 = {}"
    using Cons.prems(2,3) a asked by auto
  from Cons.IH [OF p1 p4 p5 rest] ch lim c3 show ?case by simp
qed

subsection \<open>Loading and concluding\<close>

lemma add_questions_frame:
  "asked_questions (add_questions qs g) = asked_questions g
   \<and> participants (add_questions qs g) = participants g
   \<and> channel (add_questions qs g) = channel g
   \<and> question_count (add_questions qs g) = question_count g
   \<and> answer_time_limit (add_questions qs g) = answer_time_limit g
   \<and> sent (add_questions qs g) = sent g
   \<and> (distinct (map fst (questions g)) \<longrightarrow> distinct (map fst (questions (add_questions qs g))))"
  by (induction qs arbitrary: g) (auto simp: distinct_update split: if_splits)

lemma load_questions_from_file_frame:
  "asked_questions (snd (load_questions_from_file D f g)) = asked_questions g
   \<and> participants (snd (load_questions_from_file D f g)) = participants g
   \<and> channel (snd (load_questions_from_file D f g)) = channel g
   \<and> question_count (snd (load_questions_from_file D f g)) = question_count g
   \<and> answer_time_limit (snd (load_questions_from_file D f g)) = answer_time_limit g
   \<and> sent (snd (load_questions_from_file D f g)) = sent g
   \<and> (distinct (map fst (questions g)) \<longrightarrow>
        distinct (map fst (questions (snd (load_questions_from_file D f g)))))"
  using add_questions_frame [of _ g]
  by (simp add: load_questions_from_file_def split: option.splits)

lemma load_all_frame:
  "asked_questions (snd (load_all D names g)) = asked_questions g
   \<and> participants (snd (load_all D names g)) = participants g
   \<and> channel (snd (load_all D names g)) = channel g
   \<and> question_count (snd (load_all D names g)) = question_count g
   \<and> answer_time_limit (snd (load_all D names g)) = answer_time_limit g
   \<and> sent (snd (load_all D names g)) = sent g
   \<and> (distinct (map fst (questions g)) \<longrightarrow>
        distinct (map fst (questions (snd (load_all D names g)))))"
proof (induction names arbitrary: g)
  case Nil
  then show ?case by simp
next
  case (Cons name rest)
  obtain ok g' where l: "load_questions_from_file D (questions_file name) g = (ok, g')"
    by (cases "load_questions_from_file D (questions_file name) g")
  from load_questions_from_file_frame [where D = D and f = "questions_file name" and g = g] l
  have f: "asked_questions g' = asked_questions g" "participants g' = participants g"
    "channel g' = channel g" "question_count g' = question_count g"
    "answer_time_limit g' = answer_time_limit g" "sent g' = sent g"
    "distinct (map fst (questions g)) \<longrightarrow> distinct (map fst (questions g'))"
    by simp_all
  show ?case
  proof (cases ok)
    case True
    with l Cons.IH [of g'] f show ?thesis by simp
  next
    case False
    with l f show ?thesis by simp
  qed
qed

lemma load_questions_frame:
  "asked_questions (snd (load_questions D cat g)) = {}
   \<and> participants (snd (load_questions D cat g)) = participants g
   \<and> channel (snd (load_questions D cat g)) = channel g
   \<and> question_count (snd (load_questions D cat g)) = question_count g
   \<and> answer_time_limit (snd (load_questions D cat g)) = answer_time_limit g
   \<and> sent (snd (load_questions D cat g)) = sent g
   \<and> distinct (map fst (questions (snd (load_questions D cat g))))"
proof -
  let ?g0 = "g\<lparr>questions := [], asked_questions := {}\<rparr>"
  note a = load_all_frame [where D = D and g = ?g0]
  note f = load_questions_from_file_frame [where D = D and g = ?g0]
  show ?thesis
    unfolding load_questions_def Let_def
    using a f by (simp split: prod.splits)
qed

lemma py_max_nonempty: "xs \<noteq> [] \<Longrightarrow> \<exists>m. py_max xs = Some m"
  by (cases xs) simp_all

lemma fold_store_score_sent:
  "sent (fold (\<lambda>(user, score). store_score user score) xs g)
     = sent g @ map (\<lambda>(user, score). StoreScore user score) xs"
  by (induction xs arbitrary: g) (simp_all add: store_score_def case_prod_beta)

lemma fold_store_score_asked [simp]:
  "asked_questions (fold (\<lambda>(user, score). store_score user score) xs g) = asked_questions g"
  by (induction xs arbitrary: g) (simp_all add: store_score_def case_prod_beta)

lemma reset_game_fields [simp]:
  "round_state (reset_game g) = Idle"
  "asked_questions (reset_game g) = asked_questions g"
  "sent (reset_game g) = sent g"
  by (simp_all add: reset_game_def round_state_def)

lemma end_quiz_ok:
  assumes "scores g \<noteq> []"
  shows "\<exists>g'. end_quiz g = Returned g' \<and> round_state g' = Idle
           \<and> asked_questions g' = asked_questions g \<and> set (sent g) \<subseteq> set (sent g')"
proof -
  from assms obtain max_score where m: "py_max (map snd (scores g)) = Some max_score"
    using py_max_nonempty [of "map snd (scores g)"] by auto
  have "sort_key (\<lambda>(user, score). - score) (scores g) \<noteq> []"
    using assms by (metis length_0_conv length_sort)
  then obtain w where w: "py_max (map (\<lambda>(user, score). length user)
      (sort_key (\<lambda>(user, score). - score) (scores g))) = Some w"
    using py_max_nonempty [of "map (\<lambda>(user, score). length user)
      (sort_key (\<lambda>(user, score). - score) (scores g))"] by auto
  show ?thesis
    unfolding end_quiz_def Let_def
    using m w
    by (simp add: mode_def fold_privmsg_sent fold_store_score_sent subset_iff)
qed

lemma end_quiz_count:
  assumes "end_quiz g = Returned g'"
  shows "count_list (sent g') (deadline_line ch limit) = count_list (sent g) (deadline_line ch limit)"
proof -
  have a: "\<And>w xs. count_list (map (\<lambda>(user, score).
              Privmsg (channel g) ('' '' @ ljust w user @ '' : '' @ str_int score @ '' points'')) xs)
            (deadline_line ch limit) = 0"
    by (rule count_list_map_none) (simp add: case_prod_beta other_lines_not_deadline)
  have b: "\<And>xs. count_list (map (\<lambda>(user, score). StoreScore user score) xs)
            (deadline_line ch limit) = 0"
    by (rule count_list_map_none) (simp add: case_prod_beta other_lines_not_deadline)
  from assms show ?thesis
    unfolding end_quiz_def Let_def
    by (auto simp: mode_def fold_privmsg_sent fold_store_score_sent a [simplified] b
        other_lines_not_deadline colour_def bold_def reset_game_def split: option.splits)
qed

section \<open>Answers\<close>

lemmas quiz_defs = new_quiz_game_def handle_start_command_def handle_join_command_def
  load_questions_def load_questions_from_file_def questions_file_def replace_char_def
  privmsg_def notice_def mode_def store_score_def allow_joining_def reset_game_def
  reset_current_question_def ask_question_def show_results_def end_quiz_def process_answer_def
  stop_game_def on_disconnect_def on_join_def start_quiz_def random_sample_def
  lower_def lower_char_def upper_def upper_char_def Let_def round_state_def
  str_int_def str_nat.simps fmt02_def bold_def colour_def apos_def ljust_def

lemmas demo_defs = demo_files_def demo_files_of_def demo_game_def demo_recruiting_def
  demo_recruiting_of_def demo_active_def demo_active_of_def demo_q1_def demo_q2_def
  demo_q_lower_def

lemma demo_active_fields:
  "game_active demo_active" "joining_allowed demo_active"
  "participants demo_active = [(''alice'', 0)]" "scores demo_active = [(''alice'', 0)]"
  "current_question demo_active = Some ''What is H2O?''"
  "questions demo_active = [demo_q1, demo_q2]"
  "last_command_time demo_active = Map.empty" "answered_participants demo_active = Map.empty"
  "rate_limit demo_active = 2" "channel demo_active = ''#quiz''"
  by (simp_all add: quiz_defs demo_defs)

text \<open>
  Claim C10: a \<open>process_answer\<close> call rejected by the rate limiter leaves the caller's
  last-action timestamp unchanged (it only sends the courtesy notice), while every call
  that passes the rate limit test records a new last-action timestamp, also when the
  answer is then ignored because the game is inactive, the caller is not a participant,
  no question is open, or the caller has already answered.
\<close>

theorem process_answer_last_command_time:
  "(rate_limited now1 user g \<longrightarrow>
      process_answer now1 now2 user answer g
        = Returned (privmsg (channel g) (user @ '', please wait before sending another command.'') g)
      \<and> last_command_time (state_of (process_answer now1 now2 user answer g)) = last_command_time g)
   \<and> (\<not> rate_limited now1 user g \<longrightarrow>
      last_command_time (state_of (process_answer now1 now2 user answer g))
        = (last_command_time g)(user \<mapsto> now2))
   \<and> (\<not> rate_limited now1 user g
        \<and> (\<not> game_active g \<or> map_of (participants g) user = None \<or> current_question g = None
             \<or> answered_participants g user \<noteq> None) \<longrightarrow>
      process_answer now1 now2 user answer g
        = Returned (g\<lparr>last_command_time := (last_command_time g)(user \<mapsto> now2)\<rparr>))"
  by (auto simp: process_answer_def rate_limited_def Let_def split: option.splits)

text \<open>alice answers at time 10; her call at time 11 is inside the rate limit of two seconds,
  her call at time 13 is outside it and is ignored because she has answered.\<close>

theorem process_answer_last_command_time_witness:
  "rate_limited 11 ''alice'' (state_of (process_answer 10 10 ''alice'' ''a'' demo_active))
   \<and> last_command_time
        (state_of (process_answer 11 11 ''alice'' ''b''
           (state_of (process_answer 10 10 ''alice'' ''a'' demo_active)))) ''alice'' = Some 10
   \<and> \<not> rate_limited 13 ''alice'' (state_of (process_answer 10 10 ''alice'' ''a'' demo_active))
   \<and> answered_participants (state_of (process_answer 10 10 ''alice'' ''a'' demo_active)) ''alice''
       \<noteq> None
   \<and> last_command_time
        (state_of (process_answer 13 14 ''alice'' ''b''
           (state_of (process_answer 10 10 ''alice'' ''a'' demo_active)))) ''alice'' = Some 14
   \<and> scores (state_of (process_answer 13 14 ''alice'' ''b''
           (state_of (process_answer 10 10 ''alice'' ''a'' demo_active)))) = [(''alice'', 1)]"
proof -
  let ?g = "state_of (process_answer 10 10 ''alice'' ''a'' demo_active)"
  have g: "last_command_time ?g ''alice'' = Some 10" "rate_limit ?g = 2"
    "answered_participants ?g ''alice'' = Some True" "scores ?g = [(''alice'', 1)]"
    by (simp_all add: process_answer_def demo_active_fields demo_q1_def upper_def upper_char_def
        privmsg_def Let_def)
  then have lim: "rate_limited 11 ''alice'' ?g" "\<not> rate_limited 13 ''alice'' ?g"
    by (simp_all add: rate_limited_def)
  from process_answer_last_command_time [where g = ?g and ?now1.0 = 11 and ?now2.0 = 11
      and user = "''alice''" and answer = "''b''"]
    process_answer_last_command_time [where g = ?g and ?now1.0 = 13 and ?now2.0 = 14
      and user = "''alice''" and answer = "''b''"] lim g
  show ?thesis by simp
qed

text \<open>
  Claim C7 as stated does not hold: the submitted label is upper-cased, the stored correct
  label is not. With a question file whose labels are lower-case, the answer \<open>a\<close> to a
  question whose correct label is \<open>a\<close> is wrong and scores nothing.
\<close>

theorem lower_case_label_never_matches:
  "correct (snd demo_q_lower) = ''a''
   \<and> current_question (demo_active_of demo_q_lower []) = Some (fst demo_q_lower)
   \<and> scores (demo_active_of demo_q_lower []) = [(''alice'', 0)]
   \<and> scores (state_of (process_answer 10 10 ''alice'' ''a'' (demo_active_of demo_q_lower [])))
       = [(''alice'', 0)]
   \<and> last (sent (state_of (process_answer 10 10 ''alice'' ''a'' (demo_active_of demo_q_lower []))))
       = Privmsg ''#quiz'' (''alice answered '' @ colour @ ''04Wrong!'' @ colour)"
  by (simp add: quiz_defs demo_defs)

text \<open>
  Claim C7, amended: for every participant answer submitted to an open question whose
  designated correct label is in upper case (as the question fetcher writes it; labels
  in ASCII), a submitted label equal to the correct label up to letter case increments
  that participant's score by exactly one point, and any other label leaves the score
  unchanged; no other participant's score changes.
\<close>

theorem process_answer_scoring:
  assumes "\<not> rate_limited now1 user g"
    and "game_active g" and "map_of (participants g) user \<noteq> None"
    and "current_question g = Some q" and "map_of (questions g) q = Some d"
    and "answered_participants g user = None"
    and "map_of (scores g) user = Some score"
    and "upper (correct d) = correct d" and "ascii (correct d)" and "ascii answer"
  shows "map_of (scores (state_of (process_answer now1 now2 user answer g))) user
           = Some (if upper answer = upper (correct d) then score + 1 else score)
       \<and> (\<forall>u. u \<noteq> user \<longrightarrow>
            map_of (scores (state_of (process_answer now1 now2 user answer g))) u
              = map_of (scores g) u)"
  using assms
  by (auto simp: process_answer_def rate_limited_def Let_def update_conv' split: option.splits)

theorem process_answer_scoring_witness:
  "\<not> rate_limited 10 ''alice'' demo_active
   \<and> upper (correct (snd demo_q1)) = correct (snd demo_q1)
   \<and> ascii (correct (snd demo_q1)) \<and> ascii ''a'' \<and> ascii ''b''
   \<and> upper ''a'' = upper (correct (snd demo_q1))
   \<and> map_of (scores (state_of (process_answer 10 10 ''alice'' ''a'' demo_active))) ''alice'' = Some 1
   \<and> upper ''b'' \<noteq> upper (correct (snd demo_q1))
   \<and> map_of (scores (state_of (process_answer 10 10 ''alice'' ''b'' demo_active))) ''alice'' = Some 0"
proof -
  have h: "\<not> rate_limited 10 ''alice'' demo_active" "game_active demo_active"
    "map_of (participants demo_active) ''alice'' \<noteq> None"
    "current_question demo_active = Some ''What is H2O?''"
    "map_of (questions demo_active) ''What is H2O?'' = Some (snd demo_q1)"
    "answered_participants demo_active ''alice'' = None"
    "map_of (scores demo_active) ''alice'' = Some 0"
    by (simp_all add: rate_limited_def demo_active_fields demo_q1_def)
  have l: "upper (correct (snd demo_q1)) = correct (snd demo_q1)"
    "ascii (correct (snd demo_q1))" "ascii ''a''" "ascii ''b''"
    "upper ''a'' = upper (correct (snd demo_q1))" "upper ''b'' \<noteq> upper (correct (snd demo_q1))"
    by (simp_all add: demo_q1_def upper_def upper_char_def ascii_def)
  from process_answer_scoring [OF h l(1,2,3), where ?now2.0 = 10]
    process_answer_scoring [OF h l(1,2,4), where ?now2.0 = 10] h(1) l
  show ?thesis by simp
qed

section \<open>The admin's stop\<close>

text \<open>
  Claim C2 as stated does not hold. During the recruitment window \<open>stop_game\<close> answers
  that there is no active game and changes nothing. During a round it clears
  \<open>game_active\<close> only: \<open>joining_allowed\<close>, set when the round was announced, is still
  set, so the flags read as a recruitment window, and participants, scores and the
  current question are kept.
\<close>

theorem stop_game_refused_while_recruiting:
  "round_state demo_recruiting = Recruiting
   \<and> stop_game ''admin'' demo_recruiting
       = demo_recruiting\<lparr>sent := sent demo_recruiting
                                 @ [Privmsg ''admin'' ''No active game to stop.'']\<rparr>
   \<and> round_state demo_active = Active
   \<and> round_state (stop_game ''admin'' demo_active) = Recruiting
   \<and> participants (stop_game ''admin'' demo_active) = [(''alice'', 0)]
   \<and> scores (stop_game ''admin'' demo_active) = [(''alice'', 0)]
   \<and> current_question (stop_game ''admin'' demo_active) = Some ''What is H2O?''"
  by (simp add: quiz_defs demo_defs)

text \<open>
  Claim C2, amended: the admin stop action succeeds exactly when the round is Active
  (\<open>game_active\<close> is set); when it succeeds it clears \<open>game_active\<close> and announces the
  forced stop to the channel; in every case it sends one message and persists no
  participant score.
\<close>

theorem stop_game_only_when_active:
  "(sent (stop_game nick g) = sent g @ [Privmsg (channel g) ''Game has been stopped by an admin.'']
      \<longleftrightarrow> round_state g = Active)
   \<and> (round_state g = Active \<longrightarrow>
        stop_game nick g
          = g\<lparr>game_active := False,
              sent := sent g @ [Privmsg (channel g) ''Game has been stopped by an admin.'']\<rparr>)
   \<and> (round_state g \<noteq> Active \<longrightarrow>
        stop_game nick g = g\<lparr>sent := sent g @ [Privmsg nick ''No active game to stop.'']\<rparr>)"
  by (auto simp: stop_game_def round_state_def privmsg_def)

theorem stop_game_only_when_active_witness:
  "round_state demo_active = Active
   \<and> stop_game ''admin'' demo_active
       = demo_active\<lparr>game_active := False,
            sent := sent demo_active @ [Privmsg ''#quiz'' ''Game has been stopped by an admin.'']\<rparr>
   \<and> round_state demo_recruiting \<noteq> Active
   \<and> stop_game ''admin'' demo_recruiting
       = demo_recruiting\<lparr>sent := sent demo_recruiting
                                 @ [Privmsg ''admin'' ''No active game to stop.'']\<rparr>"
proof -
  have s: "round_state demo_active = Active" "channel demo_active = ''#quiz''"
    by (simp_all add: round_state_def demo_active_fields)
  have r: "round_state demo_recruiting \<noteq> Active"
    by (simp add: quiz_defs demo_defs)
  from stop_game_only_when_active [where g = demo_active and nick = "''admin''"]
    stop_game_only_when_active [where g = demo_recruiting and nick = "''admin''"] s r
  show ?thesis by simp
qed

section \<open>A round\<close>

lemma nth_keys_distinct:
  assumes "distinct (map fst Q)" and "distinct pick" and "list_all (\<lambda>i. i < length Q) pick"
  shows "distinct (map (\<lambda>i. fst (Q ! i)) pick)"
proof -
  have "inj_on (\<lambda>i. fst (Q ! i)) (set pick)"
  proof (rule inj_onI)
    fix i j assume "i \<in> set pick" "j \<in> set pick" and eq: "fst (Q ! i) = fst (Q ! j)"
    then have "i < length Q" "j < length Q" using assms(3) by (auto simp: list_all_iff)
    then have "(map fst Q ! i = map fst Q ! j) = (i = j)"
      using assms(1) by (intro nth_eq_iff_index_eq) simp_all
    with eq \<open>i < length Q\<close> \<open>j < length Q\<close> show "i = j" by simp
  qed
  with assms(2) show ?thesis by (simp add: distinct_map)
qed

text \<open>
  A round that nothing disturbs. With no participant when the recruitment timer fires,
  the round reverts to Idle with the cancellation notice and nothing else. With at least
  one participant, when the category loads, the question count and the time to answer are
  not negative, each question names one of its answer labels as correct, and only
  players' joins and answers arrive meanwhile, the round asks exactly min(question count,
  number of loaded questions) questions, whatever the random choice: that many lines with
  the time to answer are added to the output, one for each question asked; the questions
  recorded as asked are the sampled ones, pairwise distinct and that many, each announced
  under its number, and the round ends in Idle. A question already recorded as asked is
  not asked again.
\<close>

lemma undisturbed_round:
  "(participants g = [] \<longrightarrow>
      start_quiz D shuffle sleeps cat g
        = Returned (reset_game (g\<lparr>sent := sent g @
             [Privmsg (channel g) ''Quiz cancelled due to no participants.'',
              Mode (channel g) ''-m'']\<rparr>))
      \<and> round_state (state_of (start_quiz D shuffle sleeps cat g)) = Idle
      \<and> asked_questions (state_of (start_quiz D shuffle sleeps cat g)) = asked_questions g)
   \<and> (participants g \<noteq> [] \<and> load_questions D cat g = (True, g1) \<and> answerable (questions g1)
        \<and> 0 \<le> question_count g \<and> 0 \<le> answer_time_limit g
        \<and> valid_shuffle (length (questions g1)) shuffle
        \<and> players_only sleeps
        \<and> k = nat (min (question_count g) (int (length (questions g1)))) \<longrightarrow>
      (\<exists>g'. start_quiz D shuffle sleeps cat g = Returned g' \<and> round_state g' = Idle
         \<and> asked_questions g' = set (map (\<lambda>i. fst (questions g1 ! i)) (take k shuffle))
         \<and> distinct (map (\<lambda>i. fst (questions g1 ! i)) (take k shuffle))
         \<and> card (asked_questions g') = k
         \<and> count_list (sent g') (deadline_line (channel g) (answer_time_limit g))
               = count_list (sent g) (deadline_line (channel g) (answer_time_limit g)) + k
         \<and> (\<forall>j < k.
               question_line (channel g) (Suc j) (fst (questions g1 ! (shuffle ! j))) \<in> set (sent g'))))
   \<and> (\<forall>q i d h. q \<in> asked_questions h \<longrightarrow> ask_question q i d h = h)"
proof (intro conjI impI allI)
  fix q i d and h :: quiz_game
  assume "q \<in> asked_questions h"
  then show "ask_question q i d h = h" by (rule ask_question_again)
next
  assume none: "participants g = []"
  then show "start_quiz D shuffle sleeps cat g
        = Returned (reset_game (g\<lparr>sent := sent g @
             [Privmsg (channel g) ''Quiz cancelled due to no participants.'',
              Mode (channel g) ''-m'']\<rparr>))"
    by (simp add: start_quiz_def privmsg_def mode_def)
  from none show "round_state (state_of (start_quiz D shuffle sleeps cat g)) = Idle"
    by (simp add: start_quiz_def)
  from none show "asked_questions (state_of (start_quiz D shuffle sleeps cat g)) = asked_questions g"
    by (simp add: start_quiz_def mode_def)
next
  let ?Q = "questions g1"
  let ?k = "min (question_count g) (int (length ?Q))"
  let ?pick = "take k shuffle"
  let ?sample = "map (\<lambda>i. ?Q ! i) ?pick"
  assume a: "participants g \<noteq> [] \<and> load_questions D cat g = (True, g1) \<and> answerable ?Q
        \<and> 0 \<le> question_count g \<and> 0 \<le> answer_time_limit g
        \<and> valid_shuffle (length ?Q) shuffle \<and> players_only sleeps \<and> k = nat ?k"
  then have some: "participants g \<noteq> []" and load: "load_questions D cat g = (True, g1)"
    and wf: "answerable ?Q" and count: "0 \<le> question_count g"
    and limit: "0 \<le> answer_time_limit g"
    and shuffle: "length shuffle = length ?Q" "distinct shuffle"
      "list_all (\<lambda>i. i < length ?Q) shuffle"
    and players: "players_only sleeps" and k: "k = nat ?k"
    by (simp_all add: valid_shuffle_def)
  have k_le: "k \<le> length shuffle" using k shuffle(1) by simp
  have pick: "length ?pick = k" "distinct ?pick" "list_all (\<lambda>i. i < length ?Q) ?pick"
    using k_le shuffle(2,3) by (auto simp: list_all_iff dest: in_set_takeD)
  from load_questions_frame [where D = D and cat = cat and g = g] load
  have g1: "asked_questions g1 = {}" "participants g1 = participants g"
    "channel g1 = channel g" "question_count g1 = question_count g"
    "distinct (map fst ?Q)" "answer_time_limit g1 = answer_time_limit g" "sent g1 = sent g"
    by simp_all
  let ?g2 = "g1\<lparr>game_active := True, scores := map (\<lambda>(nick, _). (nick, 0)) (participants g1)\<rparr>"
  have in_Q: "\<And>i. i \<in> set ?pick \<Longrightarrow> ?Q ! i \<in> set ?Q"
    using pick(3) by (simp add: list_all_iff)
  have p2: "list_all (\<lambda>(q, d). map_of (questions ?g2) q = Some d) ?sample"
    using in_Q g1(5) by (auto simp: list_all_iff)
  have p3: "answerable ?sample"
    using in_Q wf by (auto simp: answerable_def list_all_iff)
  have keys: "map fst ?sample = map (\<lambda>i. fst (?Q ! i)) ?pick" by simp
  have p4: "distinct (map fst ?sample)"
    unfolding keys using g1(5) pick(2,3) by (rule nth_keys_distinct)
  have p5: "set (map fst ?sample) \<inter> asked_questions ?g2 = {}"
    using g1(1) by simp
  have p6: "0 \<le> answer_time_limit ?g2" using limit g1(6) by simp
  from run_questions_all [OF players p2 p3 p4 p5 p6, of D 1]
  obtain g3 where run: "run_questions D sleeps 1 ?sample ?g2 = Returned g3"
    and g3_a: "asked_questions g3 = asked_questions ?g2 \<union> set (map fst ?sample)"
    and g3_s: "map fst (scores g3) = map fst (scores ?g2)"
    and g3_l: "\<forall>j < length ?sample.
                 question_line (channel ?g2) (1 + j) (fst (?sample ! j)) \<in> set (sent g3)"
    by blast
  have "scores g3 \<noteq> []"
    using g3_s some g1(2) by (cases "scores g3") auto
  from end_quiz_ok [OF this]
  obtain g' where fin: "end_quiz g3 = Returned g'" and idle: "round_state g' = Idle"
    and g'_a: "asked_questions g' = asked_questions g3" and g'_o: "set (sent g3) \<subseteq> set (sent g')"
    by blast
  have sample: "random_sample shuffle (questions ?g2)
                  (min (question_count ?g2) (int (length (questions ?g2)))) = Some ?sample"
    using count k g1(4) by (simp add: random_sample_def)
  have result: "start_quiz D shuffle sleeps cat g = Returned g'"
    using some load sample run fin
    by (simp add: start_quiz_def Let_def)
  have asked: "asked_questions g' = set (map (\<lambda>i. fst (?Q ! i)) ?pick)"
    using g'_a g3_a g1(1) by (simp add: image_image)
  have "card (set (map (\<lambda>i. fst (?Q ! i)) ?pick)) = length ?pick"
    using distinct_card [OF p4] by simp
  then have card: "card (asked_questions g') = k"
    using asked pick(1) by simp
  have lines: "\<forall>j < k.
      question_line (channel g) (Suc j) (fst (?Q ! (shuffle ! j))) \<in> set (sent g')"
    using g3_l g'_o g1(3) pick(1) by auto
  have "count_list (sent g3) (deadline_line (channel ?g2) (answer_time_limit ?g2))
          = count_list (sent ?g2) (deadline_line (channel ?g2) (answer_time_limit ?g2))
              + length ?sample"
    using players p4 p5 run by (rule run_questions_count)
  then have number: "count_list (sent g') (deadline_line (channel g) (answer_time_limit g))
      = count_list (sent g) (deadline_line (channel g) (answer_time_limit g)) + k"
    using end_quiz_count [OF fin] g1(3,6,7) pick(1) by simp
  show "\<exists>g'. start_quiz D shuffle sleeps cat g = Returned g' \<and> round_state g' = Idle
         \<and> asked_questions g' = set (map (\<lambda>i. fst (?Q ! i)) ?pick)
         \<and> distinct (map (\<lambda>i. fst (?Q ! i)) ?pick)
         \<and> card (asked_questions g') = k
         \<and> count_list (sent g') (deadline_line (channel g) (answer_time_limit g))
               = count_list (sent g) (deadline_line (channel g) (answer_time_limit g)) + k
         \<and> (\<forall>j < k.
               question_line (channel g) (Suc j) (fst (?Q ! (shuffle ! j))) \<in> set (sent g'))"
    using result idle asked p4 card number lines unfolding keys by blast
qed

text \<open>The demo round: the timer that \<^verbatim>\<open>!start science\<close> starts is
  \<^verbatim>\<open>start_quiz\<close> for the category \<open>Science\<close>.\<close>

lemma demo_timer:
  "snd (handle_start_command demo_files ''science'' ''carol'' demo_game) = Some ''Science''"
  by (simp add: quiz_defs demo_defs)

lemma demo_load:
  "fst (load_questions demo_files ''Science'' demo_recruiting) = True"
  "questions (snd (load_questions demo_files ''Science'' demo_recruiting)) = [demo_q1, demo_q2]"
  "participants demo_recruiting = [(''alice'', 0)]"
  "question_count demo_recruiting = 5"
  "channel demo_recruiting = ''#quiz''"
  "answer_time_limit demo_recruiting = 30"
  "count_list (sent demo_recruiting) (deadline_line ''#quiz'' 30) = 0"
  by (simp_all add: quiz_defs demo_defs deadline_line_def)

lemma undisturbed_round_demo:
  "start_quiz demo_files [] [] ''Science'' demo_game
     = Returned (reset_game (demo_game\<lparr>sent :=
         [Privmsg ''#quiz'' ''Quiz cancelled due to no participants.'', Mode ''#quiz'' ''-m'']\<rparr>))
   \<and> round_state (state_of (start_quiz demo_files [] [] ''Science'' demo_game)) = Idle
   \<and> participants demo_recruiting \<noteq> []
   \<and> answerable [demo_q1, demo_q2]
   \<and> valid_shuffle 2 [1, 0]
   \<and> players_only [[Answer 10 10 ''alice'' ''b'']]
   \<and> (\<exists>g'. start_quiz demo_files [1, 0] [[Answer 10 10 ''alice'' ''b'']] ''Science'' demo_recruiting
               = Returned g'
          \<and> round_state g' = Idle
          \<and> asked_questions g' = {''Which planet is red?'', ''What is H2O?''}
          \<and> card (asked_questions g') = 2
          \<and> count_list (sent g') (deadline_line ''#quiz'' 30) = 2
          \<and> question_line ''#quiz'' 1 ''Which planet is red?'' \<in> set (sent g')
          \<and> question_line ''#quiz'' 2 ''What is H2O?'' \<in> set (sent g'))"
proof -
  have empty: "participants demo_game = []" "channel demo_game = ''#quiz''" "sent demo_game = []"
    by (simp_all add: demo_game_def new_quiz_game_def)
  have hyps: "participants demo_recruiting \<noteq> []" "answerable [demo_q1, demo_q2]"
    "valid_shuffle 2 [1, 0]" "players_only [[Answer 10 10 ''alice'' ''b'']]"
    "load_questions demo_files ''Science'' demo_recruiting
       = (True, snd (load_questions demo_files ''Science'' demo_recruiting))"
    using demo_load
    by (simp_all add: answerable_def valid_shuffle_def players_only_def demo_q1_def demo_q2_def
        prod_eq_iff)
  have keys: "fst demo_q1 = ''What is H2O?''" "fst demo_q2 = ''Which planet is red?''"
    by (simp_all add: demo_q1_def demo_q2_def)
  from undisturbed_round [where g = demo_game and D = demo_files and shuffle = "[]"
      and sleeps = "[]" and cat = "''Science''"] empty
  have first: "start_quiz demo_files [] [] ''Science'' demo_game
     = Returned (reset_game (demo_game\<lparr>sent :=
         [Privmsg ''#quiz'' ''Quiz cancelled due to no participants.'', Mode ''#quiz'' ''-m'']\<rparr>))
     \<and> round_state (state_of (start_quiz demo_files [] [] ''Science'' demo_game)) = Idle"
    by simp
  from undisturbed_round [where g = demo_recruiting and D = demo_files and shuffle = "[1, 0]"
      and sleeps = "[[Answer 10 10 ''alice'' ''b'']]" and cat = "''Science''"
      and ?g1.0 = "snd (load_questions demo_files ''Science'' demo_recruiting)" and k = 2]
    hyps demo_load keys
  have second: "\<exists>g'. start_quiz demo_files [1, 0] [[Answer 10 10 ''alice'' ''b'']] ''Science'' demo_recruiting
               = Returned g'
          \<and> round_state g' = Idle
          \<and> asked_questions g' = {''Which planet is red?'', ''What is H2O?''}
          \<and> card (asked_questions g') = 2
          \<and> count_list (sent g') (deadline_line ''#quiz'' 30) = 2
          \<and> question_line ''#quiz'' 1 ''Which planet is red?'' \<in> set (sent g')
          \<and> question_line ''#quiz'' 2 ''What is H2O?'' \<in> set (sent g')"
    by (auto simp: less_Suc_eq numeral_2_eq_2)
  show ?thesis using first second hyps(1-4) by simp
qed

subsection \<open>A start command during a round\<close>

lemmas library_defs = library_files_def library_recruiting_def library_active_def
  demo_game_def demo_q1_def demo_q2_def demo_q3_def demo_q4_def

text \<open>
  Claim C5 says that a round with at least one participant asks exactly min(question
  count, number of available questions of the category) questions, all different. In the
  code \<^verbatim>\<open>!start\<close> is served during a round as well: \<^verbatim>\<open>handle_start_command\<close> loads
  the named category, which replaces the questions of the game, before it looks at the
  state of the round, and after the notice that a quiz is already active it goes on and
  starts a timer for a further round. In the installation with the categories Science (two
  questions) and History, with five questions per round and alice as the participant of a
  Science round: left alone, the round asks two questions and ends in Idle; with
  \<^verbatim>\<open>!start history\<close> by bob during the first wait, the quiz thread finds the History
  questions in place of its own when the wait ends and stops with \<^verbatim>\<open>KeyError\<close>, one
  question asked, no answer revealed, the game still active; and the timer that bob's
  command started then runs a History round for alice, which brings the questions asked to
  three.
\<close>

theorem restart_breaks_round:
  "(let line = deadline_line ''#quiz'' 30;
        quiet = start_quiz library_files [0, 1] [] ''Science'' library_recruiting;
        run = start_quiz library_files [0, 1] [[Start ''history'' ''bob'']] ''Science''
                library_recruiting;
        later = start_quiz library_files [0, 1] [] ''History'' (state_of run)
    in participants library_recruiting = [(''alice'', 0)]
       \<and> question_count library_recruiting = 5
       \<and> read_questions library_files ''quiz_data/Science_questions.json''
             = Some [demo_q1, demo_q2]
       \<and> quiet = Returned (state_of quiet)
       \<and> round_state (state_of quiet) = Idle
       \<and> count_list (sent (state_of quiet)) line = 2
       \<and> snd (handle_start_command library_files ''history'' ''bob'' library_active)
             = Some ''History''
       \<and> run = Raised KeyError (state_of run)
       \<and> count_list (sent (state_of run)) line = 1
       \<and> sent (state_of run) ! 16 = Notice ''bob'' ''A quiz is already active.''
       \<and> questions (state_of run) = [demo_q3, demo_q4]
       \<and> current_question (state_of run) = Some ''What is H2O?''
       \<and> round_state (state_of run) = Active
       \<and> later = Returned (state_of later)
       \<and> count_list (sent (state_of later)) line = 3
       \<and> question_line ''#quiz'' 1 ''Who built the Colosseum?'' \<in> set (sent (state_of later))
       \<and> last (sent (state_of later)) = StoreScore ''alice'' 0)"
  by (simp add: quiz_defs library_defs question_line_def deadline_line_def)

section \<open>Stopping and interrupting a running quiz\<close>

lemma run_questions_step:
  "0 \<le> answer_time_limit (ask_question (fst p) i (snd p) g) \<Longrightarrow>
   run_questions D sleeps i (p # rest) g =
     (case show_results (during_sleep D sleeps (ask_question (fst p) i (snd p) g)) of
        Raised e g' \<Rightarrow> Raised e g'
      | Returned g' \<Rightarrow> run_questions D (tl sleeps) (Suc i) rest g')"
  by (cases p) (simp add: Let_def)

text \<open>\<open>demo_active\<close> is the state in which the quiz thread of the demo round waits for
  the first time.\<close>

lemma demo_active_reached:
  "start_quiz demo_files [0, 1] sleeps ''Science'' demo_recruiting =
     (case show_results (during_sleep demo_files sleeps demo_active) of
        Raised e g' \<Rightarrow> Raised e g'
      | Returned g' \<Rightarrow>
          (case run_questions demo_files (tl sleeps) 2 [demo_q2] g' of
             Raised e g'' \<Rightarrow> Raised e g''
           | Returned g3 \<Rightarrow> end_quiz g3))"
proof -
  let ?g1 = "snd (load_questions demo_files ''Science'' demo_recruiting)"
  let ?g2 = "?g1\<lparr>game_active := True,
                   scores := map (\<lambda>(nick, _). (nick, 0)) (participants ?g1)\<rparr>"
  have l: "fst (load_questions demo_files ''Science'' demo_recruiting)"
    "questions ?g1 = [demo_q1, demo_q2]" "participants demo_recruiting \<noteq> []"
    "question_count ?g1 = 5"
    using demo_load load_questions_frame [where D = demo_files and cat = "''Science''"
        and g = demo_recruiting]
    by simp_all
  have a: "demo_active = ask_question (fst demo_q1) 1 (snd demo_q1) ?g2"
    by (simp add: demo_active_def demo_active_of_def demo_files_def demo_recruiting_def Let_def)
  have sample: "random_sample [0, 1] (questions ?g2) (min (question_count ?g2) (int (length (questions ?g2))))
                  = Some [demo_q1, demo_q2]"
    by (simp add: random_sample_def l)
  have awake: "0 \<le> answer_time_limit (ask_question (fst demo_q1) 1 (snd demo_q1) ?g2)"
    unfolding a [symmetric] by (simp add: quiz_defs demo_defs)
  have loop: "run_questions demo_files sleeps 1 [demo_q1, demo_q2] ?g2 =
     (case show_results (during_sleep demo_files sleeps demo_active) of
        Raised e g' \<Rightarrow> Raised e g'
      | Returned g' \<Rightarrow> run_questions demo_files (tl sleeps) 2 [demo_q2] g')"
    unfolding a run_questions_step [OF awake, of demo_files sleeps] Suc_1 by (rule refl)
  have "start_quiz demo_files [0, 1] sleeps ''Science'' demo_recruiting =
          (case run_questions demo_files sleeps 1 [demo_q1, demo_q2] ?g2 of
             Raised e g' \<Rightarrow> Raised e g'
           | Returned g3 \<Rightarrow> end_quiz g3)"
    unfolding start_quiz_def Let_def case_prod_beta using l(1,3) sample by simp
  then show ?thesis
    unfolding loop by (simp split: outcome.splits)
qed

text \<open>
  The handlers by themselves: a disconnect during a round sets the interruption flag and
  keeps participants and scores without sending or storing anything, and the bot's next
  join of the channel, if nothing has happened in between, resets the game and leaves no
  flag behind, so that a second join announces nothing.
\<close>

lemma on_disconnect_active:
  assumes "game_active g"
  shows "on_disconnect True g
           = g\<lparr>game_active := False, game_interrupted := True, joining_allowed := False\<rparr>"
  using assms by (simp add: on_disconnect_def)

lemma on_join_after_disconnect:
  assumes "game_active g" and "lower joined_nick = lower bot_nick"
  shows "round_state (on_join joined_nick bot_nick (on_disconnect True g)) = Idle"
    and "participants (on_join joined_nick bot_nick (on_disconnect True g)) = []"
    and "scores (on_join joined_nick bot_nick (on_disconnect True g)) = []"
    and "\<not> game_interrupted (on_join joined_nick bot_nick (on_disconnect True g))"
    and "on_join joined_nick bot_nick (on_join joined_nick bot_nick (on_disconnect True g))
           = on_join joined_nick bot_nick (on_disconnect True g)"
  using assms
  by (simp_all add: on_disconnect_def on_join_def Let_def reset_game_def round_state_def
      mode_def privmsg_def)

text \<open>
  Claim C1 says that the firing of a deadline timer after the round has been stopped
  does nothing. In the code the quiz thread does not look at \<open>game_active\<close> when its
  wait ends (lemma \<open>run_questions_all\<close> has no hypothesis on the flags): with two
  questions and the admin's stop during the first wait, it reveals the first answer,
  asks the second question, ends the quiz and stores the score.
\<close>

theorem stopped_quiz_continues:
  "(let run = start_quiz demo_files [0, 1] [[StopGame ''admin'']] ''Science'' demo_recruiting;
        out = sent (state_of run)
    in run = Returned (state_of run)
       \<and> length out = 41
       \<and> out ! 16 = Privmsg ''#quiz'' ''Game has been stopped by an admin.''
       \<and> out ! 22 = question_line ''#quiz'' 2 ''Which planet is red?''
       \<and> out ! 40 = StoreScore ''alice'' 0)"
  by (simp add: quiz_defs demo_defs question_line_def)

text \<open>
  Claim C6 says that no score of an interrupted round is stored and that the partial
  scores are shown once after the reconnection. In the code the quiz thread goes on
  after a disconnect as well: with the disconnect during the last wait, it ends the
  quiz, stores alice's score and resets the game, interruption flag included, so the
  bot's join of the channel announces nothing.
\<close>

theorem interrupted_quiz_is_stored:
  "(let run = start_quiz demo_files [0, 1] [[Answer 10 10 ''alice'' ''a''], [Disconnect True]]
                ''Science'' demo_recruiting;
        g = state_of run
    in run = Returned g
       \<and> last (sent g) = StoreScore ''alice'' 1
       \<and> game_interrupted g = False
       \<and> on_join ''Quizzer'' ''Quizzer'' g = g)"
  by (simp add: quiz_defs demo_defs)

end
